theory Spec2Isabelle
  imports Main
begin

section \<open>Strings\<close>

text \<open>
  Go strings are byte sequences; \<open>strings.HasPrefix\<close> and \<open>strings.Contains\<close>
  (which \<open>assert.Contains\<close> uses on strings) are written out on \<open>char list\<close>.
\<close>

definition HasPrefix :: "string \<Rightarrow> string \<Rightarrow> bool" where
  "HasPrefix s prefix = (take (length prefix) s = prefix)"

fun Contains :: "string \<Rightarrow> string \<Rightarrow> bool" where
  "Contains [] substr = (substr = [])"
| "Contains (c # cs) substr = (HasPrefix (c # cs) substr \<or> Contains cs substr)"

section \<open>Data model of the processor\<close>

text \<open>
  \<open>contracts.ResultStatus\<close> and \<open>model.DocumentType\<close> are string types in Go, so
  the zero value of a freshly declared state is the empty string. Their declarations are
  not part of the sources at hand.

  Modelled from the spec: the values of \<open>ResultStatus\<close> and \<open>DocumentType\<close>
  (section 3, Data model), the two topic prefixes (section 6, Topic routing) and the names
  of the two update-self plugins (section 4.5, step 10).
\<close>

type_synonym ResultStatus = string

definition ResultStatusInProgress :: ResultStatus where
  "ResultStatusInProgress = ''InProgress''"

definition ResultStatusSuccess :: ResultStatus where
  "ResultStatusSuccess = ''Success''"

definition ResultStatusFailed :: ResultStatus where
  "ResultStatusFailed = ''Failed''"

definition ResultStatusSuccessAndReboot :: ResultStatus where
  "ResultStatusSuccessAndReboot = ''SuccessAndReboot''"

type_synonym DocumentType = string

definition SendCommand :: DocumentType where
  "SendCommand = ''SendCommand''"

definition SendCommandOffline :: DocumentType where
  "SendCommandOffline = ''SendCommandOffline''"

definition CancelCommand :: DocumentType where
  "CancelCommand = ''CancelCommand''"

definition CancelCommandOffline :: DocumentType where
  "CancelCommandOffline = ''CancelCommandOffline''"

definition SendCommandTopicPrefix :: string where
  "SendCommandTopicPrefix = ''aws.ssm.sendCommand.''"

definition CancelCommandTopicPrefix :: string where
  "CancelCommandTopicPrefix = ''aws.ssm.cancelCommand.''"

definition PluginNameAwsAgentUpdate :: string where
  "PluginNameAwsAgentUpdate = ''aws:updateSsmAgent''"

definition PluginEC2ConfigUpdate :: string where
  "PluginEC2ConfigUpdate = ''aws:updateEc2Config''"

text \<open>
  Modelled from the spec: the struct declarations of \<open>contracts\<close> and \<open>model\<close>
  (section 3). Only the fields the processor reads or writes are given a type of their
  own; payloads that are copied through unchanged are strings.
\<close>

record Configuration =
  Properties :: string

record PluginResult =
  Status :: ResultStatus
  Code :: int
  Output :: string

record PluginState =
  Name :: string
  Configuration :: Configuration
  Result :: PluginResult
  HasExecuted :: bool

type_synonym PluginOutputs = "(string \<times> PluginResult) list"

record DocumentInfo =
  DocumentID :: string
  InstanceID :: string
  MessageID :: string
  CommandID :: string
  DocumentName :: string
  DocumentStatus :: ResultStatus
  RuntimeStatus :: PluginOutputs
  AdditionalInfo :: string
  DocumentTraceOutput :: string

record CancelCommandInfo =
  CancelMessageID :: string
  CancelCommandID :: string
  DebugInfo :: string

record DocumentState =
  DocumentInformation :: DocumentInfo
  DocumentType :: DocumentType
  InstancePluginsInformation :: "PluginState list"
  CancelInformation :: CancelCommandInfo

text \<open>The reply payload that \<open>buildReply\<close> returns; the processor copies four fields.\<close>

record SendReplyPayload =
  reply_AdditionalInfo :: string
  reply_DocumentStatus :: ResultStatus
  reply_DocumentTraceOutput :: string
  reply_RuntimeStatus :: PluginOutputs

text \<open>The zero value of a Go \<open>model.DocumentState\<close>.\<close>

definition empty_DocumentInfo :: DocumentInfo where
  "empty_DocumentInfo =
     \<lparr>DocumentID = [], InstanceID = [], MessageID = [], CommandID = [], DocumentName = [],
      DocumentStatus = [], RuntimeStatus = [], AdditionalInfo = [],
      DocumentTraceOutput = []\<rparr>"

definition empty_DocumentState :: DocumentState where
  "empty_DocumentState =
     \<lparr>DocumentInformation = empty_DocumentInfo, DocumentType = [],
      InstancePluginsInformation = [],
      CancelInformation = \<lparr>CancelMessageID = [], CancelCommandID = [], DebugInfo = []\<rparr>\<rparr>"

record Message =
  MessageId :: string
  Topic :: string
  Payload :: string
  CreatedDate :: string
  Destination :: string

section \<open>The world the processor acts on\<close>

datatype folder = Pending | Current | Completed | Corrupt

datatype FailureType = InternalHandlerException | NoHandlerExists

text \<open>
  Every call the processor makes to a collaborator that has an effect is recorded, in
  order, the way a mock records it.
\<close>

datatype call =
    Called_RunPlugins string "PluginState list"
  | Called_PersistDocumentInfo DocumentInfo string string folder
  | Called_PersistData string string folder DocumentState
  | Called_MoveDocumentState string string folder folder
  | Called_SendResponse string string PluginOutputs
  | Called_SendDocLevelResponse string ResultStatus string
  | Called_AcknowledgeMessage string
  | Called_FailMessage string FailureType
  | Called_DeleteMessage string
  | Called_HandleAwsError string
  | Called_Submit string string
  | Called_Cancel string

text \<open>
  A file of the document store is addressed by instance and document id inside one of the
  four folders. A pool holds its queued and running jobs by key, each with the document
  it was submitted for and its cancel flag.
\<close>

type_synonym docstore = "folder \<Rightarrow> (string \<times> string) \<rightharpoonup> DocumentState"

record job =
  job_document :: DocumentState
  job_canceled :: bool

type_synonym pool = "string \<rightharpoonup> job"

record world =
  files :: docstore
  calls :: "call list"
  sendCommandPool :: pool
  cancelCommandPool :: pool

definition record_call :: "call \<Rightarrow> world \<Rightarrow> world" where
  "record_call c w = w\<lparr>calls := calls w @ [c]\<rparr>"

text \<open>The calls made between an earlier world and a later one.\<close>

definition calls_since :: "world \<Rightarrow> world \<Rightarrow> call list" where
  "calls_since w w' = drop (length (calls w)) (calls w')"

text \<open>What a list of recorded calls holds: a move, a delete, the plugins given to the runner.\<close>

fun is_MoveDocumentState :: "call \<Rightarrow> bool" where
  "is_MoveDocumentState (Called_MoveDocumentState documentID instanceID src dst) = True"
| "is_MoveDocumentState c = False"

fun is_DeleteMessage :: "call \<Rightarrow> bool" where
  "is_DeleteMessage (Called_DeleteMessage messageID) = True"
| "is_DeleteMessage c = False"

fun handed_to_runner :: "call list \<Rightarrow> PluginState list" where
  "handed_to_runner [] = []"
| "handed_to_runner (Called_RunPlugins messageID plugins # cs) = plugins @ handed_to_runner cs"
| "handed_to_runner (c # cs) = handed_to_runner cs"

subsection \<open>Document store\<close>

text \<open>
  Modelled from the spec: the functions of package \<open>statemanager\<close> (section 4.1,
  Document Store), which the sources at hand only call. \<open>Get\<close> returns the empty state
  on an absent file; \<open>Persist\<close> writes the file; the document-information variant is a
  read-modify-write of the interim state; \<open>Move\<close> renames across folders and leaves
  everything in place when the source file is absent.
\<close>

definition GetDocumentInterimState :: "string \<Rightarrow> string \<Rightarrow> folder \<Rightarrow> world \<Rightarrow> DocumentState" where
  "GetDocumentInterimState documentID instanceID locationFolder w =
     (case files w locationFolder (instanceID, documentID) of
        None \<Rightarrow> empty_DocumentState
      | Some st \<Rightarrow> st)"

definition PersistData :: "string \<Rightarrow> string \<Rightarrow> folder \<Rightarrow> DocumentState \<Rightarrow> world \<Rightarrow> world" where
  "PersistData documentID instanceID locationFolder st w =
     record_call (Called_PersistData documentID instanceID locationFolder st)
       (w\<lparr>files := (files w)(locationFolder :=
             (files w locationFolder)((instanceID, documentID) \<mapsto> st))\<rparr>)"

definition PersistDocumentInfo :: "DocumentInfo \<Rightarrow> string \<Rightarrow> string \<Rightarrow> folder \<Rightarrow> world \<Rightarrow> world" where
  "PersistDocumentInfo docInfo documentID instanceID locationFolder w =
     (let commandState = GetDocumentInterimState documentID instanceID locationFolder w;
          commandState = commandState\<lparr>DocumentInformation := docInfo\<rparr>
      in record_call (Called_PersistDocumentInfo docInfo documentID instanceID locationFolder)
           (w\<lparr>files := (files w)(locationFolder :=
                 (files w locationFolder)((instanceID, documentID) \<mapsto> commandState))\<rparr>))"

definition MoveDocumentState :: "string \<Rightarrow> string \<Rightarrow> folder \<Rightarrow> folder \<Rightarrow> world \<Rightarrow> world" where
  "MoveDocumentState documentID instanceID srcLocationFolder dstLocationFolder w =
     record_call (Called_MoveDocumentState documentID instanceID srcLocationFolder dstLocationFolder)
       (case files w srcLocationFolder (instanceID, documentID) of
          None \<Rightarrow> w
        | Some st \<Rightarrow>
            (let removed = (files w)(srcLocationFolder :=
                             (files w srcLocationFolder)((instanceID, documentID) := None))
             in w\<lparr>files := removed(dstLocationFolder :=
                             (removed dstLocationFolder)((instanceID, documentID) \<mapsto> st))\<rparr>))"

subsection \<open>Message service, plugin runner and pools\<close>

text \<open>
  The message service is an interface value in the source. Here it is the record of what
  each of its calls answers (\<open>None\<close> for a nil error); the wrappers below record the
  call. \<open>sdkutil.HandleAwsError\<close> only feeds the stop policy and is recorded.
\<close>

record Service =
  AcknowledgeMessage :: "string \<Rightarrow> string option"
  FailMessage :: "string \<Rightarrow> FailureType \<Rightarrow> string option"
  DeleteMessage :: "string \<Rightarrow> string option"

definition call_AcknowledgeMessage :: "Service \<Rightarrow> string \<Rightarrow> world \<Rightarrow> string option \<times> world" where
  "call_AcknowledgeMessage mdsService messageID w =
     (AcknowledgeMessage mdsService messageID, record_call (Called_AcknowledgeMessage messageID) w)"

definition call_FailMessage :: "Service \<Rightarrow> string \<Rightarrow> FailureType \<Rightarrow> world \<Rightarrow> string option \<times> world" where
  "call_FailMessage mdsService messageID failureType w =
     (FailMessage mdsService messageID failureType,
      record_call (Called_FailMessage messageID failureType) w)"

definition call_DeleteMessage :: "Service \<Rightarrow> string \<Rightarrow> world \<Rightarrow> string option \<times> world" where
  "call_DeleteMessage mdsService messageID w =
     (DeleteMessage mdsService messageID, record_call (Called_DeleteMessage messageID) w)"

definition HandleAwsError :: "string \<Rightarrow> world \<Rightarrow> world" where
  "HandleAwsError err w = record_call (Called_HandleAwsError err) w"

text \<open>
  The plugin runner is a function value in the source. It gets the message id and the
  plugin states and returns the outputs; what it persists while running is its effect on
  the document store. \<open>buildReply\<close> is a pure function value; \<open>sendResponse\<close>
  and \<open>sendDocLevelResponse\<close> are recorded.
\<close>

type_synonym PluginRunner = "string \<Rightarrow> PluginState list \<Rightarrow> docstore \<Rightarrow> PluginOutputs \<times> docstore"

type_synonym replyBuilder = "string \<Rightarrow> PluginOutputs \<Rightarrow> SendReplyPayload"

definition call_runPlugins :: "PluginRunner \<Rightarrow> string \<Rightarrow> PluginState list \<Rightarrow> world \<Rightarrow> PluginOutputs \<times> world" where
  "call_runPlugins runPlugins messageID plugins w =
     (fst (runPlugins messageID plugins (files w)),
      record_call (Called_RunPlugins messageID plugins)
        (w\<lparr>files := snd (runPlugins messageID plugins (files w))\<rparr>))"

definition sendResponse :: "string \<Rightarrow> string \<Rightarrow> PluginOutputs \<Rightarrow> world \<Rightarrow> world" where
  "sendResponse messageID pluginID outputs w =
     record_call (Called_SendResponse messageID pluginID outputs) w"

definition sendDocLevelResponse :: "string \<Rightarrow> ResultStatus \<Rightarrow> string \<Rightarrow> world \<Rightarrow> world" where
  "sendDocLevelResponse messageID resultStatus documentTraceOutput w =
     record_call (Called_SendDocLevelResponse messageID resultStatus documentTraceOutput) w"

text \<open>
  Modelled from the spec: \<open>task.Pool\<close> (section 4.2, Worker Pool). \<open>Submit\<close>
  refuses a key that is already active or queued and otherwise queues the job, which runs
  later on a worker; \<open>Cancel\<close> reports whether the key is known and sets that job's
  cancel flag.
\<close>

definition Submit :: "pool \<Rightarrow> string \<Rightarrow> DocumentState \<Rightarrow> string option \<times> pool" where
  "Submit p jobID docState =
     (case p jobID of
        Some j \<Rightarrow> (Some ''DuplicateJob'', p)
      | None \<Rightarrow> (None, p(jobID \<mapsto> \<lparr>job_document = docState, job_canceled = False\<rparr>)))"

definition Cancel :: "pool \<Rightarrow> string \<Rightarrow> bool \<times> pool" where
  "Cancel p jobID =
     (case p jobID of
        None \<Rightarrow> (False, p)
      | Some j \<Rightarrow> (True, p(jobID \<mapsto> j\<lparr>job_canceled := True\<rparr>)))"

section \<open>The processor core\<close>

text \<open>
  The functions of \<open>processor_core\<close>, statement by statement. Logging and the
  marshalling of values for the log have no effect on the world and are left out; the
  context and the cancel flag are only handed on to the runner and are part of it here.
\<close>

text \<open>\<open>isUpdatePlugin\<close>: the loop over the plugin states returns at the first update plugin.\<close>

fun isUpdatePlugin_loop :: "PluginState list \<Rightarrow> bool" where
  "isUpdatePlugin_loop [] = False"
| "isUpdatePlugin_loop (pluginState # rest) =
     (if Name pluginState = PluginEC2ConfigUpdate \<or> Name pluginState = PluginNameAwsAgentUpdate
      then True
      else isUpdatePlugin_loop rest)"

definition isUpdatePlugin :: "DocumentState \<Rightarrow> bool" where
  "isUpdatePlugin pluginConfig = isUpdatePlugin_loop (InstancePluginsInformation pluginConfig)"

text \<open>
  \<open>loadPluginConfigurations\<close> ranges over a Go map from plugin name to plugin state,
  here the list of its entries, and fills a fresh map of configurations.
\<close>

fun loadPluginConfigurations_loop ::
  "(string \<times> PluginState) list \<Rightarrow> (string \<rightharpoonup> Configuration) \<Rightarrow> (string \<rightharpoonup> Configuration)" where
  "loadPluginConfigurations_loop [] configs = configs"
| "loadPluginConfigurations_loop ((pluginName, pluginConfig) # rest) configs =
     (if HasExecuted pluginConfig
      then loadPluginConfigurations_loop rest configs
      else loadPluginConfigurations_loop rest (configs(pluginName \<mapsto> Configuration pluginConfig)))"

definition loadPluginConfigurations :: "(string \<times> PluginState) list \<Rightarrow> (string \<rightharpoonup> Configuration)" where
  "loadPluginConfigurations plugins = loadPluginConfigurations_loop plugins Map.empty"

text \<open>
  \<open>processSendCommandMessage\<close>: run the plugins, overlay the reply on the interim
  state read back from the current folder, persist it, send the reply; return on a reboot
  request, else move the interim state to the completed folder and delete the message
  unless an update plugin owns it. The document is a pointer in the source and is only
  read here.
\<close>

definition processSendCommandMessage ::
  "Service \<Rightarrow> PluginRunner \<Rightarrow> replyBuilder \<Rightarrow> DocumentState \<Rightarrow> world \<Rightarrow> world" where
  "processSendCommandMessage mdsService runPlugins buildReply docState w =
     (let (outputs, w) = call_runPlugins runPlugins
                           (MessageID (DocumentInformation docState))
                           (InstancePluginsInformation docState) w;
          payloadDoc = buildReply [] outputs;
          newCmdState = GetDocumentInterimState
                          (DocumentID (DocumentInformation docState))
                          (InstanceID (DocumentInformation docState))
                          Current w;
          newCmdState = newCmdState\<lparr>DocumentInformation :=
                          (DocumentInformation newCmdState)
                            \<lparr>AdditionalInfo := reply_AdditionalInfo payloadDoc,
                             DocumentStatus := reply_DocumentStatus payloadDoc,
                             DocumentTraceOutput := reply_DocumentTraceOutput payloadDoc,
                             RuntimeStatus := reply_RuntimeStatus payloadDoc\<rparr>\<rparr>;
          w = PersistDocumentInfo
                (DocumentInformation newCmdState)
                (DocumentID (DocumentInformation newCmdState))
                (InstanceID (DocumentInformation newCmdState))
                Current w;
          w = sendResponse (MessageID (DocumentInformation newCmdState)) [] outputs w
      in if DocumentStatus (DocumentInformation newCmdState) = ResultStatusSuccessAndReboot
         then w
         else
           (let w = MoveDocumentState
                      (DocumentID (DocumentInformation newCmdState))
                      (InstanceID (DocumentInformation newCmdState))
                      Current Completed w
            in if \<not> isUpdatePlugin newCmdState
               then (case call_DeleteMessage mdsService
                            (MessageID (DocumentInformation newCmdState)) w of
                       (None, w) \<Rightarrow> w
                     | (Some err, w) \<Rightarrow> HandleAwsError err w)
               else w))"

text \<open>
  \<open>runCmdsUsingCmdState\<close> takes the document by value and makes the same calls in the
  same order.
\<close>

definition runCmdsUsingCmdState ::
  "Service \<Rightarrow> PluginRunner \<Rightarrow> replyBuilder \<Rightarrow> DocumentState \<Rightarrow> world \<Rightarrow> world" where
  "runCmdsUsingCmdState mdsService runPlugins buildReply docState w =
     (let (outputs, w) = call_runPlugins runPlugins
                           (MessageID (DocumentInformation docState))
                           (InstancePluginsInformation docState) w;
          payloadDoc = buildReply [] outputs;
          newCmdState = GetDocumentInterimState
                          (DocumentID (DocumentInformation docState))
                          (InstanceID (DocumentInformation docState))
                          Current w;
          newCmdState = newCmdState\<lparr>DocumentInformation :=
                          (DocumentInformation newCmdState)
                            \<lparr>AdditionalInfo := reply_AdditionalInfo payloadDoc,
                             DocumentStatus := reply_DocumentStatus payloadDoc,
                             DocumentTraceOutput := reply_DocumentTraceOutput payloadDoc,
                             RuntimeStatus := reply_RuntimeStatus payloadDoc\<rparr>\<rparr>;
          w = PersistDocumentInfo
                (DocumentInformation newCmdState)
                (DocumentID (DocumentInformation newCmdState))
                (InstanceID (DocumentInformation newCmdState))
                Current w;
          w = sendResponse (MessageID (DocumentInformation newCmdState)) [] outputs w
      in if DocumentStatus (DocumentInformation newCmdState) = ResultStatusSuccessAndReboot
         then w
         else
           (let w = MoveDocumentState
                      (DocumentID (DocumentInformation newCmdState))
                      (InstanceID (DocumentInformation newCmdState))
                      Current Completed w
            in if \<not> isUpdatePlugin newCmdState
               then (case call_DeleteMessage mdsService
                            (MessageID (DocumentInformation newCmdState)) w of
                       (None, w) \<Rightarrow> w
                     | (Some err, w) \<Rightarrow> HandleAwsError err w)
               else w))"

text \<open>
  \<open>processCancelCommandMessage\<close> writes the outcome into the document it was given
  (a pointer in the source), so the document is returned next to the world.
\<close>

definition processCancelCommandMessage ::
  "Service \<Rightarrow> DocumentState \<Rightarrow> world \<Rightarrow> DocumentState \<times> world" where
  "processCancelCommandMessage mdsService docState w =
     (let (found, p) = Cancel (sendCommandPool w) (CancelMessageID (CancelInformation docState));
          w = record_call (Called_Cancel (CancelMessageID (CancelInformation docState)))
                (w\<lparr>sendCommandPool := p\<rparr>);
          docState =
            (if \<not> found
             then docState
                    \<lparr>CancelInformation := (CancelInformation docState)
                       \<lparr>DebugInfo := ''Command '' @ CancelCommandID (CancelInformation docState)
                                       @ '' couldn't be cancelled''\<rparr>,
                     DocumentInformation := (DocumentInformation docState)
                       \<lparr>DocumentStatus := ResultStatusFailed\<rparr>\<rparr>
             else docState
                    \<lparr>CancelInformation := (CancelInformation docState)
                       \<lparr>DebugInfo := ''Command '' @ CancelCommandID (CancelInformation docState)
                                       @ '' cancelled''\<rparr>,
                     DocumentInformation := (DocumentInformation docState)
                       \<lparr>DocumentStatus := ResultStatusSuccess\<rparr>\<rparr>);
          w = PersistData
                (DocumentID (DocumentInformation docState))
                (InstanceID (DocumentInformation docState))
                Current docState w;
          w = MoveDocumentState
                (DocumentID (DocumentInformation docState))
                (InstanceID (DocumentInformation docState))
                Current Completed w
      in (case call_DeleteMessage mdsService (MessageID (DocumentInformation docState)) w of
            (None, w) \<Rightarrow> (docState, w)
          | (Some err, w) \<Rightarrow> (docState, HandleAwsError err w)))"

text \<open>
  \<open>ExecutePendingDocument\<close> moves the document to the current folder and submits it
  to the pool of its type; the submitted job runs later on a worker of that pool. A
  refused submit and an unexpected document type are only logged.
\<close>

definition ExecutePendingDocument :: "DocumentState \<Rightarrow> world \<Rightarrow> world" where
  "ExecutePendingDocument docState w =
     (let w = MoveDocumentState
                (DocumentID (DocumentInformation docState))
                (InstanceID (DocumentInformation docState))
                Pending Current w
      in if DocumentType docState = SendCommand \<or> DocumentType docState = SendCommandOffline
         then (let (err, p) = Submit (sendCommandPool w)
                                (MessageID (DocumentInformation docState)) docState
               in record_call (Called_Submit ''sendCommandPool''
                                 (MessageID (DocumentInformation docState)))
                    (w\<lparr>sendCommandPool := p\<rparr>))
         else if DocumentType docState = CancelCommand \<or> DocumentType docState = CancelCommandOffline
         then (let (err, p) = Submit (cancelCommandPool w)
                                (MessageID (DocumentInformation docState)) docState
               in record_call (Called_Submit ''cancelCommandPool''
                                 (MessageID (DocumentInformation docState)))
                    (w\<lparr>cancelCommandPool := p\<rparr>))
         else w)"

text \<open>
  Modelled from the spec: \<open>validate\<close> (section 4.5, step 1: non-empty message id,
  topic, payload and created date) and the processor's \<open>persistData\<close> (step 3, a
  \<open>Persist\<close> of the state under its own ids); neither is in the sources at hand.
\<close>

definition validate :: "Message \<Rightarrow> string option" where
  "validate msg =
     (if MessageId msg = [] then Some ''MessageId is missing''
      else if Topic msg = [] then Some ''Topic is missing''
      else if Payload msg = [] then Some ''Payload is missing''
      else if CreatedDate msg = [] then Some ''CreatedDate is missing''
      else None)"

definition persistData :: "DocumentState \<Rightarrow> folder \<Rightarrow> world \<Rightarrow> world" where
  "persistData docState bookkeeping w =
     PersistData
       (DocumentID (DocumentInformation docState))
       (InstanceID (DocumentInformation docState))
       bookkeeping docState w"

text \<open>
  The processor value: its message service and the two loaders, which the source keeps in
  package variables (\<open>loadDocStateFromSendCommand\<close>, \<open>loadDocStateFromCancelCommand\<close>)
  and which answer a document state or an error.
\<close>

record Processor =
  service :: Service
  loadDocStateFromSendCommand :: "Message \<Rightarrow> string + DocumentState"
  loadDocStateFromCancelCommand :: "Message \<Rightarrow> string + DocumentState"

text \<open>
  \<open>processMessage\<close>. The source sets \<open>docState\<close> and \<open>err\<close> in the three
  branches on the topic and then tests \<open>err\<close>; a failed send-command load returns
  inside its branch.
\<close>

definition processMessage_loaded :: "Processor \<Rightarrow> Message \<Rightarrow> string + DocumentState \<Rightarrow> world \<Rightarrow> world" where
  "processMessage_loaded p msg loaded w =
     (case loaded of
        Inl err \<Rightarrow>
          (case call_FailMessage (service p) (MessageId msg) InternalHandlerException w of
             (None, w) \<Rightarrow> w
           | (Some err, w) \<Rightarrow> HandleAwsError err w)
      | Inr docState \<Rightarrow>
          (let w = persistData docState Pending w
           in case call_AcknowledgeMessage (service p) (MessageId msg) w of
                (Some err, w) \<Rightarrow> HandleAwsError err w
              | (None, w) \<Rightarrow>
                  (let w = sendDocLevelResponse (MessageId msg) ResultStatusInProgress [] w
                   in ExecutePendingDocument docState w)))"

definition processMessage :: "Processor \<Rightarrow> Message \<Rightarrow> world \<Rightarrow> world" where
  "processMessage p msg w =
     (case validate msg of
        Some err \<Rightarrow> w
      | None \<Rightarrow>
          if HasPrefix (Topic msg) SendCommandTopicPrefix
          then (case loadDocStateFromSendCommand p msg of
                  Inl err \<Rightarrow> sendDocLevelResponse (MessageId msg) ResultStatusFailed err w
                | Inr docState \<Rightarrow> processMessage_loaded p msg (Inr docState) w)
          else if HasPrefix (Topic msg) CancelCommandTopicPrefix
          then processMessage_loaded p msg (loadDocStateFromCancelCommand p msg) w
          else processMessage_loaded p msg (Inl (''unexpected topic name '' @ Topic msg)) w)"

section \<open>The package configuration engine\<close>

text \<open>
  Modelled from the spec: package \<open>configurepackage\<close>, of which the sources at hand
  hold only the tests. The definitions of this section follow section 4.6 (Package
  Configuration Engine), the entities of section 3 and the error kinds of section 7.
  The field \<open>Name\<close> of the input is \<open>PackageName\<close> here and the field
  \<open>Status\<close> of the output is \<open>OutputStatus\<close>, since the plugin state and the
  plugin result of the processor have fields of these names already.
\<close>

record ConfigurePackagePluginInput =
  PackageName :: string
  Version :: string
  Action :: string
  Source :: string

record ConfigurePackagePluginOutput =
  ExitCode :: int
  OutputStatus :: ResultStatus
  Stdout :: string
  Stderr :: string

definition InstallAction :: string where
  "InstallAction = ''Install''"

definition UninstallAction :: string where
  "UninstallAction = ''Uninstall''"

subsection \<open>Input validation\<close>

text \<open>
  The name pattern \<open>^[A-Za-z_][A-Za-z0-9._-]*$\<close>, read off character by character,
  and the three further conditions on a name.
\<close>

definition name_first_char :: "char \<Rightarrow> bool" where
  "name_first_char c = (c \<in> set ''ABCDEFGHIJKLMNOPQRSTUVWXYZabcdefghijklmnopqrstuvwxyz_'')"

definition name_char :: "char \<Rightarrow> bool" where
  "name_char c =
     (c \<in> set ''ABCDEFGHIJKLMNOPQRSTUVWXYZabcdefghijklmnopqrstuvwxyz0123456789._-'')"

definition matches_name_pattern :: "string \<Rightarrow> bool" where
  "matches_name_pattern name =
     (case name of [] \<Rightarrow> False | c # cs \<Rightarrow> name_first_char c \<and> list_all name_char cs)"

definition valid_name :: "string \<Rightarrow> bool" where
  "valid_name name =
     (case name of
        [] \<Rightarrow> False
      | c # cs \<Rightarrow>
          matches_name_pattern name
          \<and> name_first_char c
          \<and> last name \<noteq> CHR ''.'' \<and> last name \<noteq> CHR ''-''
          \<and> \<not> Contains name ''..'')"

text \<open>
  The version pattern \<open>^\d+\.\d+\.\d+$\<close>: three non-empty runs of digits with a
  dot between them.
\<close>

definition is_digit :: "char \<Rightarrow> bool" where
  "is_digit c = (c \<in> set ''0123456789'')"

fun split_dots :: "string \<Rightarrow> string list" where
  "split_dots [] = [[]]"
| "split_dots (c # cs) =
     (if c = CHR ''.'' then [] # split_dots cs
      else (case split_dots cs of
              [] \<Rightarrow> [[c]]
            | part # parts \<Rightarrow> (c # part) # parts))"

definition digits :: "string \<Rightarrow> bool" where
  "digits part = (part \<noteq> [] \<and> list_all is_digit part)"

definition matches_version_pattern :: "string \<Rightarrow> bool" where
  "matches_version_pattern version =
     (case split_dots version of
        [major, minor, build] \<Rightarrow> digits major \<and> digits minor \<and> digits build
      | _ \<Rightarrow> False)"

text \<open>
  \<open>validateInput\<close> answers a validity flag and an error, as the Go function does. The
  action is not among the things it looks at.
\<close>

definition validateInput :: "ConfigurePackagePluginInput \<Rightarrow> bool \<times> string option" where
  "validateInput input =
     (if Source input \<noteq> [] then (False, Some ''source parameter is not supported'')
      else if PackageName input = [] then (False, Some ''empty name field'')
      else if \<not> valid_name (PackageName input) then (False, Some ''invalid name'')
      else if Version input \<noteq> [] \<and> \<not> matches_version_pattern (Version input)
      then (False, Some ''invalid version'')
      else (True, None))"

text \<open>A validation result that is a rejection whose error contains the given message.\<close>

definition rejected_with :: "bool \<times> string option \<Rightarrow> string \<Rightarrow> bool" where
  "rejected_with r message =
     (case r of (valid, None) \<Rightarrow> False | (valid, Some err) \<Rightarrow> \<not> valid \<and> Contains err message)"

subsection \<open>Package lock and installing marker\<close>

text \<open>
  The lock is one process-wide mapping from package name to the action in progress, the
  installing marker a file per package holding the version being installed. The calls
  that the manager mock of the tests records are kept in order.
\<close>

datatype manager_call =
    Called_setMark string string
  | Called_clearMark string
  | Called_downloadPackage string string
  | Called_runUninstallPackagePre string string
  | Called_runInstallPackage string string
  | Called_runUninstallPackagePost string string

record packages =
  mapPackageFileLocks :: "string \<rightharpoonup> string"
  installing :: "string \<rightharpoonup> string"
  manager_calls :: "manager_call list"

definition AlreadyLocked :: "string \<Rightarrow> string \<Rightarrow> string" where
  \<open>AlreadyLocked packageName action =
     ''Package "'' @ packageName @ ''" is already in the process of action "'' @ action @ ''"''\<close>

definition lockPackage :: "string \<Rightarrow> string \<Rightarrow> packages \<Rightarrow> string option \<times> packages" where
  "lockPackage packageName action s =
     (case mapPackageFileLocks s packageName of
        Some inProgress \<Rightarrow> (Some (AlreadyLocked packageName inProgress), s)
      | None \<Rightarrow>
          (None, s\<lparr>mapPackageFileLocks := (mapPackageFileLocks s)(packageName \<mapsto> action)\<rparr>))"

definition unlockPackage :: "string \<Rightarrow> packages \<Rightarrow> packages" where
  "unlockPackage packageName s =
     s\<lparr>mapPackageFileLocks := (mapPackageFileLocks s)(packageName := None)\<rparr>"

definition record_manager_call :: "manager_call \<Rightarrow> packages \<Rightarrow> packages" where
  "record_manager_call c s = s\<lparr>manager_calls := manager_calls s @ [c]\<rparr>"

definition setMark :: "string \<Rightarrow> string \<Rightarrow> packages \<Rightarrow> packages" where
  "setMark packageName version s =
     record_manager_call (Called_setMark packageName version)
       (s\<lparr>installing := (installing s)(packageName \<mapsto> version)\<rparr>)"

definition clearMark :: "string \<Rightarrow> packages \<Rightarrow> packages" where
  "clearMark packageName s =
     record_manager_call (Called_clearMark packageName)
       (s\<lparr>installing := (installing s)(packageName := None)\<rparr>)"

subsection \<open>Output accumulators\<close>

definition append_line :: "string \<Rightarrow> string \<Rightarrow> string" where
  "append_line text message = (if text = [] then message else text @ [CHR 0x0A] @ message)"

definition MarkAsSucceeded :: "bool \<Rightarrow> ConfigurePackagePluginOutput \<Rightarrow> ConfigurePackagePluginOutput" where
  "MarkAsSucceeded reboot out =
     out\<lparr>ExitCode := 0,
          OutputStatus := (if reboot then ResultStatusSuccessAndReboot else ResultStatusSuccess)\<rparr>"

definition MarkAsFailed :: "string \<Rightarrow> ConfigurePackagePluginOutput \<Rightarrow> ConfigurePackagePluginOutput" where
  "MarkAsFailed err out =
     out\<lparr>ExitCode := 1, OutputStatus := ResultStatusFailed,
          Stderr := append_line (Stderr out) err\<rparr>"

definition AppendInfo :: "string \<Rightarrow> ConfigurePackagePluginOutput \<Rightarrow> ConfigurePackagePluginOutput" where
  "AppendInfo message out = out\<lparr>Stdout := append_line (Stdout out) message\<rparr>"

definition AppendError :: "string \<Rightarrow> ConfigurePackagePluginOutput \<Rightarrow> ConfigurePackagePluginOutput" where
  "AppendError message out = out\<lparr>Stderr := append_line (Stderr out) message\<rparr>"

definition empty_output :: ConfigurePackagePluginOutput where
  "empty_output = \<lparr>ExitCode = 0, OutputStatus = [], Stdout = [], Stderr = []\<rparr>"

subsection \<open>The configure operation\<close>

text \<open>
  The manager is the collaborator that the tests replace by a mock: it resolves the
  versions and runs the phases. A phase answers an error or a result status. The two
  marker operations act on the marker above.
\<close>

record configurePackageManager =
  getVersionToInstall :: "ConfigurePackagePluginInput \<Rightarrow> string + (string \<times> string)"
  getVersionToUninstall :: "ConfigurePackagePluginInput \<Rightarrow> string + string"
  downloadPackage :: "string \<Rightarrow> string \<Rightarrow> string + string"
  runUninstallPackagePre :: "string \<Rightarrow> string \<Rightarrow> string + ResultStatus"
  runInstallPackage :: "string \<Rightarrow> string \<Rightarrow> string + ResultStatus"
  runUninstallPackagePost :: "string \<Rightarrow> string \<Rightarrow> string + ResultStatus"

text \<open>
  What a finished phase means for the operation: go on, stop with a reboot request, or
  stop as failed.
\<close>

datatype phase_outcome = Proceed | Reboot | Fail string

definition outcome :: "string + ResultStatus \<Rightarrow> phase_outcome" where
  "outcome r =
     (case r of
        Inl err \<Rightarrow> Fail err
      | Inr status \<Rightarrow>
          if status = ResultStatusSuccessAndReboot then Reboot
          else if status = ResultStatusSuccess then Proceed
          else Fail (''phase ended with status '' @ status))"

text \<open>
  Install (section 4.6, Install algorithm and Reboot propagation), after the lock has been
  taken: resolve the versions; the same version installed is a no-op success; set the
  marker; on an upgrade run the uninstall-pre phase of the old version; download; install;
  on an upgrade run the uninstall-post phase of the old version; clear the marker. A
  reboot request or a failure of a phase ends the operation there, with the marker left
  as it is.
\<close>

definition install_done ::
  "string \<Rightarrow> string \<Rightarrow> ConfigurePackagePluginOutput \<Rightarrow> packages
     \<Rightarrow> ConfigurePackagePluginOutput \<times> packages" where
  "install_done name version out s =
     (let s = clearMark name s
      in (MarkAsSucceeded False
            (AppendInfo (''Successfully installed '' @ name @ '' '' @ version) out), s))"

definition install_finish ::
  "configurePackageManager \<Rightarrow> string \<Rightarrow> string \<Rightarrow> string \<Rightarrow> ConfigurePackagePluginOutput \<Rightarrow> packages
     \<Rightarrow> ConfigurePackagePluginOutput \<times> packages" where
  "install_finish manager name version installedVersion out s =
     (if installedVersion = [] then install_done name version out s
      else
        (let s = record_manager_call (Called_runUninstallPackagePost name installedVersion) s
         in case outcome (runUninstallPackagePost manager name installedVersion) of
              Fail err \<Rightarrow> (MarkAsFailed err out, s)
            | Reboot \<Rightarrow> (MarkAsSucceeded True out, s)
            | Proceed \<Rightarrow> install_done name version out s))"

definition install_new ::
  "configurePackageManager \<Rightarrow> string \<Rightarrow> string \<Rightarrow> string \<Rightarrow> ConfigurePackagePluginOutput \<Rightarrow> packages
     \<Rightarrow> ConfigurePackagePluginOutput \<times> packages" where
  "install_new manager name version installedVersion out s =
     (let s = record_manager_call (Called_downloadPackage name version) s
      in case downloadPackage manager name version of
           Inl err \<Rightarrow>
             (MarkAsFailed (''failed to download installation package reliably: '' @ err) out, s)
         | Inr fileName \<Rightarrow>
             (let s = record_manager_call (Called_runInstallPackage name version) s
              in case outcome (runInstallPackage manager name version) of
                   Fail err \<Rightarrow> (MarkAsFailed err out, s)
                 | Reboot \<Rightarrow> (MarkAsSucceeded True out, s)
                 | Proceed \<Rightarrow> install_finish manager name version installedVersion out s))"

definition install ::
  "configurePackageManager \<Rightarrow> ConfigurePackagePluginInput \<Rightarrow> ConfigurePackagePluginOutput \<Rightarrow> packages
     \<Rightarrow> ConfigurePackagePluginOutput \<times> packages" where
  "install manager input out s =
     (case getVersionToInstall manager input of
        Inl err \<Rightarrow> (MarkAsFailed err out, s)
      | Inr (version, installedVersion) \<Rightarrow>
          if version = installedVersion
          then (MarkAsSucceeded False
                  (AppendInfo (PackageName input @ '' '' @ version @ '' is already installed'') out), s)
          else
            (let s = setMark (PackageName input) version s
             in if installedVersion = []
                then install_new manager (PackageName input) version installedVersion out s
                else
                  (let s = record_manager_call
                             (Called_runUninstallPackagePre (PackageName input) installedVersion) s
                   in case outcome (runUninstallPackagePre manager (PackageName input) installedVersion) of
                        Fail err \<Rightarrow> (MarkAsFailed err out, s)
                      | Reboot \<Rightarrow> (MarkAsSucceeded True out, s)
                      | Proceed \<Rightarrow>
                          install_new manager (PackageName input) version installedVersion out s)))"

text \<open>
  Uninstall (section 4.6, Uninstall algorithm): the pre phase, then the post phase, which
  is skipped when the pre phase asks for a reboot.
\<close>

definition uninstall ::
  "configurePackageManager \<Rightarrow> ConfigurePackagePluginInput \<Rightarrow> ConfigurePackagePluginOutput \<Rightarrow> packages
     \<Rightarrow> ConfigurePackagePluginOutput \<times> packages" where
  "uninstall manager input out s =
     (case getVersionToUninstall manager input of
        Inl err \<Rightarrow> (MarkAsFailed err out, s)
      | Inr version \<Rightarrow>
          (let s = record_manager_call (Called_runUninstallPackagePre (PackageName input) version) s
           in case outcome (runUninstallPackagePre manager (PackageName input) version) of
                Fail err \<Rightarrow> (MarkAsFailed err out, s)
              | Reboot \<Rightarrow> (MarkAsSucceeded True out, s)
              | Proceed \<Rightarrow>
                  (let s = record_manager_call
                             (Called_runUninstallPackagePost (PackageName input) version) s
                   in case outcome (runUninstallPackagePost manager (PackageName input) version) of
                        Fail err \<Rightarrow> (MarkAsFailed err out, s)
                      | Reboot \<Rightarrow> (MarkAsSucceeded True out, s)
                      | Proceed \<Rightarrow>
                          (MarkAsSucceeded False
                             (AppendInfo (''Successfully uninstalled '' @ PackageName input
                                            @ '' '' @ version) out), s))))"

text \<open>
  \<open>runConfigurePackage\<close>, the body of \<open>Execute\<close>: validate the input; take the
  lock for the package, which fails the operation when an action is in progress; run the
  action; release the lock on every way out once it has been taken.
\<close>

definition runConfigurePackage ::
  "configurePackageManager \<Rightarrow> ConfigurePackagePluginInput \<Rightarrow> packages
     \<Rightarrow> ConfigurePackagePluginOutput \<times> packages" where
  "runConfigurePackage manager input s =
     (case validateInput input of
        (False, err) \<Rightarrow>
          (MarkAsFailed (''invalid input: '' @ (case err of None \<Rightarrow> [] | Some e \<Rightarrow> e))
             empty_output, s)
      | (True, err) \<Rightarrow>
          (case lockPackage (PackageName input) (Action input) s of
             (Some err, s) \<Rightarrow> (MarkAsFailed err empty_output, s)
           | (None, s) \<Rightarrow>
               (let (out, s) =
                      (if Action input = InstallAction then install manager input empty_output s
                       else if Action input = UninstallAction
                       then uninstall manager input empty_output s
                       else (MarkAsFailed (''unsupported action: '' @ Action input)
                               empty_output, s))
                in (out, unlockPackage (PackageName input) s))))"

section \<open>Concrete inputs\<close>

text \<open>
  A send-command document with one plugin that has run already and one that has not, a
  world that holds it in the current folder, and collaborators with fixed answers.
\<close>

definition ex_plugin_done :: PluginState where
  "ex_plugin_done =
     \<lparr>Name = ''aws:psModule'', Configuration = \<lparr>Properties = ''first''\<rparr>,
      Result = \<lparr>Status = ''Success'', Code = 0, Output = ''done''\<rparr>, HasExecuted = True\<rparr>"

definition ex_plugin_todo :: PluginState where
  "ex_plugin_todo =
     \<lparr>Name = ''aws:applications'', Configuration = \<lparr>Properties = ''second''\<rparr>,
      Result = \<lparr>Status = [], Code = 0, Output = []\<rparr>, HasExecuted = False\<rparr>"

definition ex_plugin_update :: PluginState where
  "ex_plugin_update =
     \<lparr>Name = ''aws:updateSsmAgent'', Configuration = \<lparr>Properties = ''update''\<rparr>,
      Result = \<lparr>Status = [], Code = 0, Output = []\<rparr>, HasExecuted = False\<rparr>"

definition ex_docInfo :: DocumentInfo where
  "ex_docInfo =
     \<lparr>DocumentID = ''doc-1'', InstanceID = ''i-1'', MessageID = ''aws.ssm.cmd-1.i-1'',
      CommandID = ''cmd-1'', DocumentName = ''AWS-RunPowerShellScript'',
      DocumentStatus = ''InProgress'', RuntimeStatus = [], AdditionalInfo = [],
      DocumentTraceOutput = []\<rparr>"

definition ex_docState :: DocumentState where
  "ex_docState =
     \<lparr>DocumentInformation = ex_docInfo, DocumentType = ''SendCommand'',
      InstancePluginsInformation = [ex_plugin_done, ex_plugin_todo],
      CancelInformation = \<lparr>CancelMessageID = [], CancelCommandID = [], DebugInfo = []\<rparr>\<rparr>"

definition ex_updateDocState :: DocumentState where
  "ex_updateDocState = ex_docState\<lparr>InstancePluginsInformation := [ex_plugin_update]\<rparr>"

definition ex_cancelDocState :: DocumentState where
  "ex_cancelDocState =
     \<lparr>DocumentInformation =
        ex_docInfo\<lparr>DocumentID := ''doc-2'', MessageID := ''aws.ssm.cancel-2.i-1'',
                     CommandID := ''cancel-2''\<rparr>,
      DocumentType = ''CancelCommand'',
      InstancePluginsInformation = [],
      CancelInformation =
        \<lparr>CancelMessageID = ''aws.ssm.cmd-1.i-1'', CancelCommandID = ''cmd-1'', DebugInfo = []\<rparr>\<rparr>"

definition ex_files :: "DocumentState \<Rightarrow> docstore" where
  "ex_files st =
     (\<lambda>f. Map.empty)(Current := [(InstanceID (DocumentInformation st),
                                    DocumentID (DocumentInformation st)) \<mapsto> st])"

definition ex_world :: "DocumentState \<Rightarrow> world" where
  "ex_world st =
     \<lparr>files = ex_files st, calls = [], sendCommandPool = Map.empty,
      cancelCommandPool = Map.empty\<rparr>"

definition ex_empty_world :: world where
  "ex_empty_world =
     \<lparr>files = (\<lambda>f. Map.empty), calls = [], sendCommandPool = Map.empty,
      cancelCommandPool = Map.empty\<rparr>"

definition ex_outputs :: PluginOutputs where
  "ex_outputs = [(''aws:applications'', \<lparr>Status = ''Success'', Code = 0, Output = ''ok''\<rparr>)]"

definition ex_runPlugins :: PluginRunner where
  "ex_runPlugins messageID plugins fs = (ex_outputs, fs)"

definition ex_buildReply :: "ResultStatus \<Rightarrow> replyBuilder" where
  "ex_buildReply status pluginID outputs =
     \<lparr>reply_AdditionalInfo = ''agent'', reply_DocumentStatus = status,
      reply_DocumentTraceOutput = [], reply_RuntimeStatus = outputs\<rparr>"

definition ex_service :: Service where
  "ex_service =
     \<lparr>AcknowledgeMessage = (\<lambda>m. None), FailMessage = (\<lambda>m t. None),
      DeleteMessage = (\<lambda>m. None)\<rparr>"

definition ex_service_throttled :: Service where
  "ex_service_throttled = ex_service\<lparr>AcknowledgeMessage := (\<lambda>m. Some ''ThrottlingException'')\<rparr>"

definition ex_sendMessage :: Message where
  "ex_sendMessage =
     \<lparr>MessageId = ''aws.ssm.cmd-1.i-1'', Topic = ''aws.ssm.sendCommand.us-east-1.1'',
      Payload = ''{}'', CreatedDate = ''2017-01-01T00:00:00Z'', Destination = ''i-1''\<rparr>"

definition ex_cancelMessage :: Message where
  "ex_cancelMessage =
     \<lparr>MessageId = ''aws.ssm.cancel-2.i-1'', Topic = ''aws.ssm.cancelCommand.us-east-1.1'',
      Payload = ''not json'', CreatedDate = ''2017-01-01T00:00:00Z'', Destination = ''i-1''\<rparr>"

definition ex_processor :: "Service \<Rightarrow> Processor" where
  "ex_processor svc =
     \<lparr>service = svc,
      loadDocStateFromSendCommand = (\<lambda>msg. Inr ex_docState),
      loadDocStateFromCancelCommand = (\<lambda>msg. Inr ex_cancelDocState)\<rparr>"

definition ex_processor_unparsable :: Processor where
  "ex_processor_unparsable =
     \<lparr>service = ex_service,
      loadDocStateFromSendCommand = (\<lambda>msg. Inl ''unexpected end of JSON input''),
      loadDocStateFromCancelCommand = (\<lambda>msg. Inl ''invalid character'')\<rparr>"

text \<open>
  The manager of the upgrade tests: version 1.0.0 asked for, 0.5.6 installed, and the three
  phases answering the given statuses. The input is the install of \<open>PVDriver\<close>.
\<close>

definition ConfigPackageSuccessMock ::
  "string \<Rightarrow> string \<Rightarrow> string \<Rightarrow> ResultStatus \<Rightarrow> ResultStatus \<Rightarrow> ResultStatus
     \<Rightarrow> configurePackageManager" where
  "ConfigPackageSuccessMock downloadFilePath versionToInstall versionInstalled
       installResult uninstallPreResult uninstallPostResult =
     \<lparr>getVersionToInstall = (\<lambda>input. Inr (versionToInstall, versionInstalled)),
      getVersionToUninstall = (\<lambda>input. Inr versionInstalled),
      downloadPackage = (\<lambda>name version. Inr downloadFilePath),
      runUninstallPackagePre = (\<lambda>name version. Inr uninstallPreResult),
      runInstallPackage = (\<lambda>name version. Inr installResult),
      runUninstallPackagePost = (\<lambda>name version. Inr uninstallPostResult)\<rparr>"

definition createStubPluginInputInstall :: ConfigurePackagePluginInput where
  "createStubPluginInputInstall =
     \<lparr>PackageName = ''PVDriver'', Version = ''1.0.0'', Action = ''Install'', Source = []\<rparr>"

definition ex_packages :: packages where
  "ex_packages = \<lparr>mapPackageFileLocks = Map.empty, installing = Map.empty, manager_calls = []\<rparr>"

definition ex_packages_locked :: packages where
  "ex_packages_locked = ex_packages\<lparr>mapPackageFileLocks := [''PVDriver'' \<mapsto> ''Install'']\<rparr>"

text \<open>The input of the name tests: version 9000.0.0, action install, and the given name.\<close>

definition ex_nameInput :: "string \<Rightarrow> ConfigurePackagePluginInput" where
  "ex_nameInput name =
     \<lparr>PackageName = name, Version = ''9000.0.0'', Action = ''Install'', Source = []\<rparr>"

text \<open>The plugins of the example document as a map from plugin name to plugin state.\<close>

definition ex_pluginMap :: "(string \<times> PluginState) list" where
  "ex_pluginMap = [(''aws:psModule'', ex_plugin_done), (''aws:applications'', ex_plugin_todo)]"


section \<open>Facts about strings, the store and the helpers\<close>

lemmas store_defs = GetDocumentInterimState_def PersistData_def PersistDocumentInfo_def
  MoveDocumentState_def record_call_def call_runPlugins_def sendResponse_def
  call_DeleteMessage_def HandleAwsError_def calls_since_def

lemmas ex_defs = ex_plugin_done_def ex_plugin_todo_def ex_plugin_update_def ex_docInfo_def
  ex_docState_def ex_updateDocState_def ex_cancelDocState_def ex_files_def ex_world_def
  ex_empty_world_def ex_outputs_def ex_runPlugins_def ex_buildReply_def ex_service_def
  ex_service_throttled_def ex_sendMessage_def ex_cancelMessage_def ex_processor_def
  ex_processor_unparsable_def

lemmas const_defs = ResultStatusInProgress_def ResultStatusSuccess_def ResultStatusFailed_def
  ResultStatusSuccessAndReboot_def SendCommand_def SendCommandOffline_def CancelCommand_def
  CancelCommandOffline_def SendCommandTopicPrefix_def CancelCommandTopicPrefix_def
  PluginNameAwsAgentUpdate_def PluginEC2ConfigUpdate_def

lemma Contains_self_append: "Contains (substr @ rest) substr"
proof (cases "substr @ rest")
  case Nil
  then show ?thesis by simp
next
  case (Cons c cs)
  have "HasPrefix (substr @ rest) substr"
    by (simp add: HasPrefix_def)
  with Cons show ?thesis by simp
qed

lemma Contains_append: "Contains (front @ substr @ rest) substr"
proof (induction front)
  case Nil
  show ?case using Contains_self_append [of substr rest] by simp
next
  case (Cons c front)
  then show ?case by simp
qed

lemma Contains_refl: "Contains str str"
  using Contains_self_append [of str "[]"] by simp

lemma isUpdatePlugin_loop_iff:
  "isUpdatePlugin_loop plugins \<longleftrightarrow>
     (\<exists>pluginState \<in> set plugins.
        Name pluginState = PluginEC2ConfigUpdate \<or> Name pluginState = PluginNameAwsAgentUpdate)"
  by (induction plugins) auto

lemma loadPluginConfigurations_loop_lookup:
  "distinct (map fst plugins) \<Longrightarrow>
   loadPluginConfigurations_loop plugins configs name =
     (case map_of plugins name of
        None \<Rightarrow> configs name
      | Some pluginConfig \<Rightarrow>
          if HasExecuted pluginConfig then configs name else Some (Configuration pluginConfig))"
proof (induction plugins arbitrary: configs)
  case Nil
  then show ?case by simp
next
  case (Cons entry plugins)
  obtain pluginName pluginConfig where entry: "entry = (pluginName, pluginConfig)"
    by (cases entry)
  from Cons.prems entry have fresh: "map_of plugins pluginName = None"
    by (simp add: map_of_eq_None_iff)
  from Cons.prems have "distinct (map fst plugins)" by simp
  with Cons.IH entry fresh show ?case
    by (auto split: option.splits)
qed

lemma loadPluginConfigurations_lookup:
  assumes "distinct (map fst plugins)"
  shows "loadPluginConfigurations plugins name =
     (case map_of plugins name of
        None \<Rightarrow> None
      | Some pluginConfig \<Rightarrow>
          if HasExecuted pluginConfig then None else Some (Configuration pluginConfig))"
  using loadPluginConfigurations_loop_lookup [OF assms, of Map.empty name]
  by (simp add: loadPluginConfigurations_def)

section \<open>Send-command documents\<close>

text \<open>
  With a reply whose document status asks for a reboot, either function makes three
  calls, the reply being the last, and leaves the folders as the runner left them except
  for the file it persists in the current folder.
\<close>

lemma processSendCommandMessage_reboot:
  assumes "runPlugins (MessageID (DocumentInformation docState))
             (InstancePluginsInformation docState) (files w) = (outputs, fs)"
    and "reply_DocumentStatus (buildReply [] outputs) = ResultStatusSuccessAndReboot"
  shows "\<exists>docInfo documentID instanceID.
           calls_since w (processSendCommandMessage mdsService runPlugins buildReply docState w) =
             [Called_RunPlugins (MessageID (DocumentInformation docState))
                (InstancePluginsInformation docState),
              Called_PersistDocumentInfo docInfo documentID instanceID Current,
              Called_SendResponse (MessageID docInfo) [] outputs]"
    and "files (processSendCommandMessage mdsService runPlugins buildReply docState w) Completed
           = fs Completed"
    and "fs Current key \<noteq> None \<Longrightarrow>
           files (processSendCommandMessage mdsService runPlugins buildReply docState w) Current key
             \<noteq> None"
  using assms
  by (simp_all add: processSendCommandMessage_def store_defs Let_def split: option.splits)

lemma runCmdsUsingCmdState_reboot:
  assumes "runPlugins (MessageID (DocumentInformation docState))
             (InstancePluginsInformation docState) (files w) = (outputs, fs)"
    and "reply_DocumentStatus (buildReply [] outputs) = ResultStatusSuccessAndReboot"
  shows "\<exists>docInfo documentID instanceID.
           calls_since w (runCmdsUsingCmdState mdsService runPlugins buildReply docState w) =
             [Called_RunPlugins (MessageID (DocumentInformation docState))
                (InstancePluginsInformation docState),
              Called_PersistDocumentInfo docInfo documentID instanceID Current,
              Called_SendResponse (MessageID docInfo) [] outputs]"
    and "files (runCmdsUsingCmdState mdsService runPlugins buildReply docState w) Completed
           = fs Completed"
    and "fs Current key \<noteq> None \<Longrightarrow>
           files (runCmdsUsingCmdState mdsService runPlugins buildReply docState w) Current key
             \<noteq> None"
  using assms
  by (simp_all add: runCmdsUsingCmdState_def store_defs Let_def split: option.splits)

lemma three_calls_suspended:
  assumes "cs = [Called_RunPlugins messageID plugins,
                 Called_PersistDocumentInfo docInfo documentID instanceID Current,
                 Called_SendResponse replyTo [] outputs]"
  shows "list_all (\<lambda>c. \<not> is_MoveDocumentState c \<and> \<not> is_DeleteMessage c) cs
         \<and> (\<exists>m. last cs = Called_SendResponse m [] outputs)"
  using assms by simp

text \<open>
  C1. When the reply built from the plugin outputs has document status SuccessAndReboot,
  \<open>processSendCommandMessage\<close> and \<open>runCmdsUsingCmdState\<close> both return after the final
  reply: among the calls they make there is no move of the document state and no
  \<open>DeleteMessage\<close>, the last call is the reply, the completed folder is as the runner
  left it, and every file of the current folder is still in the current folder.
\<close>

theorem reboot_suspends_completion:
  assumes run: "runPlugins (MessageID (DocumentInformation docState))
                  (InstancePluginsInformation docState) (files w) = (outputs, fs)"
    and reboot: "reply_DocumentStatus (buildReply [] outputs) = ResultStatusSuccessAndReboot"
  shows "(let w' = processSendCommandMessage mdsService runPlugins buildReply docState w
          in list_all (\<lambda>c. \<not> is_MoveDocumentState c \<and> \<not> is_DeleteMessage c) (calls_since w w')
             \<and> (\<exists>m. last (calls_since w w') = Called_SendResponse m [] outputs)
             \<and> files w' Completed = fs Completed
             \<and> (\<forall>key. fs Current key \<noteq> None \<longrightarrow> files w' Current key \<noteq> None))
       \<and> (let w' = runCmdsUsingCmdState mdsService runPlugins buildReply docState w
          in list_all (\<lambda>c. \<not> is_MoveDocumentState c \<and> \<not> is_DeleteMessage c) (calls_since w w')
             \<and> (\<exists>m. last (calls_since w w') = Called_SendResponse m [] outputs)
             \<and> files w' Completed = fs Completed
             \<and> (\<forall>key. fs Current key \<noteq> None \<longrightarrow> files w' Current key \<noteq> None))"
proof -
  obtain docInfo documentID instanceID where
    "calls_since w (processSendCommandMessage mdsService runPlugins buildReply docState w) =
       [Called_RunPlugins (MessageID (DocumentInformation docState))
          (InstancePluginsInformation docState),
        Called_PersistDocumentInfo docInfo documentID instanceID Current,
        Called_SendResponse (MessageID docInfo) [] outputs]"
    using processSendCommandMessage_reboot(1)
      [where runPlugins = runPlugins and buildReply = buildReply, OF run reboot] by blast
  note first = three_calls_suspended [OF this]
  obtain docInfo' documentID' instanceID' where
    "calls_since w (runCmdsUsingCmdState mdsService runPlugins buildReply docState w) =
       [Called_RunPlugins (MessageID (DocumentInformation docState))
          (InstancePluginsInformation docState),
        Called_PersistDocumentInfo docInfo' documentID' instanceID' Current,
        Called_SendResponse (MessageID docInfo') [] outputs]"
    using runCmdsUsingCmdState_reboot(1)
      [where runPlugins = runPlugins and buildReply = buildReply, OF run reboot] by blast
  note second = three_calls_suspended [OF this]
  show ?thesis
    unfolding Let_def
    using first second
      processSendCommandMessage_reboot(2,3)
        [where runPlugins = runPlugins and buildReply = buildReply, OF run reboot]
      runCmdsUsingCmdState_reboot(2,3)
        [where runPlugins = runPlugins and buildReply = buildReply, OF run reboot]
    by blast
qed

theorem reboot_suspends_completion_witness:
  "ex_runPlugins (MessageID (DocumentInformation ex_docState))
     (InstancePluginsInformation ex_docState) (files (ex_world ex_docState))
     = (ex_outputs, ex_files ex_docState)
   \<and> reply_DocumentStatus (ex_buildReply ResultStatusSuccessAndReboot [] ex_outputs)
       = ResultStatusSuccessAndReboot
   \<and> ex_files ex_docState Current (''i-1'', ''doc-1'') \<noteq> None
   \<and> files (processSendCommandMessage ex_service ex_runPlugins
               (ex_buildReply ResultStatusSuccessAndReboot) ex_docState (ex_world ex_docState))
        Current (''i-1'', ''doc-1'') \<noteq> None
   \<and> files (processSendCommandMessage ex_service ex_runPlugins
               (ex_buildReply ResultStatusSuccessAndReboot) ex_docState (ex_world ex_docState))
        Completed = ex_files ex_docState Completed
   \<and> list_all (\<lambda>c. \<not> is_MoveDocumentState c \<and> \<not> is_DeleteMessage c)
        (calls_since (ex_world ex_docState)
           (processSendCommandMessage ex_service ex_runPlugins
              (ex_buildReply ResultStatusSuccessAndReboot) ex_docState (ex_world ex_docState)))
   \<and> list_all (\<lambda>c. \<not> is_MoveDocumentState c \<and> \<not> is_DeleteMessage c)
        (calls_since (ex_world ex_docState)
           (runCmdsUsingCmdState ex_service ex_runPlugins
              (ex_buildReply ResultStatusSuccessAndReboot) ex_docState (ex_world ex_docState)))"
proof -
  have run: "ex_runPlugins (MessageID (DocumentInformation ex_docState))
               (InstancePluginsInformation ex_docState) (files (ex_world ex_docState))
             = (ex_outputs, ex_files ex_docState)"
    by (simp add: ex_runPlugins_def ex_world_def)
  have reboot: "reply_DocumentStatus (ex_buildReply ResultStatusSuccessAndReboot [] ex_outputs)
                = ResultStatusSuccessAndReboot"
    by (simp add: ex_buildReply_def)
  have present: "ex_files ex_docState Current (''i-1'', ''doc-1'') \<noteq> None"
    by (simp add: ex_files_def ex_docState_def ex_docInfo_def)
  show ?thesis
    using run reboot present
      reboot_suspends_completion
        [where runPlugins = ex_runPlugins
           and buildReply = "ex_buildReply ResultStatusSuccessAndReboot"
           and mdsService = ex_service, OF run reboot]
    unfolding Let_def
    by blast
qed

text \<open>
  Whatever the reply and the answer of the message service, the plugins that
  \<open>processSendCommandMessage\<close> gives to the runner are the document's plugin states as
  they are.
\<close>

lemma processSendCommandMessage_hands_all:
  "handed_to_runner
     (calls_since w (processSendCommandMessage mdsService runPlugins buildReply docState w))
   = InstancePluginsInformation docState"
  by (simp add: processSendCommandMessage_def store_defs Let_def split_def split: option.splits)

text \<open>
  C2, as stated, fails: for the example document, whose first plugin has
  \<open>HasExecuted\<close> set, the runner is given both plugins, the executed one included,
  while the plugins whose flag is false are the second one only.
\<close>

theorem runner_is_given_executed_plugin:
  "handed_to_runner
     (calls (processSendCommandMessage ex_service ex_runPlugins
               (ex_buildReply ResultStatusSuccess) ex_docState (ex_world ex_docState)))
     = [ex_plugin_done, ex_plugin_todo]
   \<and> HasExecuted ex_plugin_done
   \<and> filter (\<lambda>pluginState. \<not> HasExecuted pluginState) (InstancePluginsInformation ex_docState)
       = [ex_plugin_todo]"
  by (simp add: processSendCommandMessage_def store_defs Let_def split_def ex_defs const_defs
        isUpdatePlugin_def)

text \<open>
  C2, amended. \<open>processSendCommandMessage\<close> gives the runner all plugin states of the
  document, in order and whatever their \<open>HasExecuted\<close> flag. The selection of the
  plugins that have not run is what \<open>loadPluginConfigurations\<close> computes, which
  \<open>processSendCommandMessage\<close> does not call: on a map of plugin states (distinct
  names) its result has exactly the names whose flag is false, each with the
  configuration of its plugin state.
\<close>

theorem runner_is_given_all_plugins:
  "handed_to_runner
     (calls_since w (processSendCommandMessage mdsService runPlugins buildReply docState w))
     = InstancePluginsInformation docState
   \<and> (distinct (map fst plugins) \<longrightarrow>
        dom (loadPluginConfigurations plugins) =
          {pluginName. \<exists>pluginConfig.
             (pluginName, pluginConfig) \<in> set plugins \<and> \<not> HasExecuted pluginConfig}
        \<and> (\<forall>(pluginName, pluginConfig) \<in> set plugins.
              \<not> HasExecuted pluginConfig \<longrightarrow>
              loadPluginConfigurations plugins pluginName = Some (Configuration pluginConfig)))"
proof (intro conjI impI)
  show "handed_to_runner
          (calls_since w (processSendCommandMessage mdsService runPlugins buildReply docState w))
        = InstancePluginsInformation docState"
    by (rule processSendCommandMessage_hands_all)
next
  assume keys: "distinct (map fst plugins)"
  show "dom (loadPluginConfigurations plugins) =
          {pluginName. \<exists>pluginConfig.
             (pluginName, pluginConfig) \<in> set plugins \<and> \<not> HasExecuted pluginConfig}"
  proof (rule set_eqI)
    fix name
    show "name \<in> dom (loadPluginConfigurations plugins) \<longleftrightarrow>
          name \<in> {pluginName. \<exists>pluginConfig.
             (pluginName, pluginConfig) \<in> set plugins \<and> \<not> HasExecuted pluginConfig}"
    proof (cases "map_of plugins name")
      case None
      then have "\<And>pluginConfig. (name, pluginConfig) \<notin> set plugins"
        by (force simp: map_of_eq_None_iff)
      with None show ?thesis
        by (simp add: loadPluginConfigurations_lookup [OF keys] dom_def)
    next
      case (Some pluginConfig)
      have "\<And>other. (name, other) \<in> set plugins \<longleftrightarrow> other = pluginConfig"
      proof
        fix other
        assume "(name, other) \<in> set plugins"
        with keys have "map_of plugins name = Some other" by (rule map_of_is_SomeI)
        with Some show "other = pluginConfig" by simp
      next
        fix other
        assume "other = pluginConfig"
        with Some show "(name, other) \<in> set plugins" by (simp add: map_of_SomeD)
      qed
      with Some show ?thesis
        by (simp add: loadPluginConfigurations_lookup [OF keys] dom_def)
    qed
  qed
next
  assume keys: "distinct (map fst plugins)"
  show "\<forall>(pluginName, pluginConfig) \<in> set plugins.
          \<not> HasExecuted pluginConfig \<longrightarrow>
          loadPluginConfigurations plugins pluginName = Some (Configuration pluginConfig)"
  proof (clarify)
    fix pluginName pluginConfig
    assume "(pluginName, pluginConfig) \<in> set plugins" and "\<not> HasExecuted pluginConfig"
    then show "loadPluginConfigurations plugins pluginName = Some (Configuration pluginConfig)"
      using keys by (simp add: loadPluginConfigurations_lookup [OF keys])
  qed
qed

theorem runner_is_given_all_plugins_witness:
  "distinct (map fst ex_pluginMap)
   \<and> handed_to_runner
       (calls_since (ex_world ex_docState)
          (processSendCommandMessage ex_service ex_runPlugins
             (ex_buildReply ResultStatusSuccess) ex_docState (ex_world ex_docState)))
       = [ex_plugin_done, ex_plugin_todo]
   \<and> dom (loadPluginConfigurations ex_pluginMap) = {''aws:applications''}
   \<and> loadPluginConfigurations ex_pluginMap ''aws:applications''
       = Some \<lparr>Properties = ''second''\<rparr>"
proof -
  have keys: "distinct (map fst ex_pluginMap)"
    by (simp add: ex_pluginMap_def)
  note all = runner_is_given_all_plugins
    [where w = "ex_world ex_docState" and mdsService = ex_service
       and runPlugins = ex_runPlugins and buildReply = "ex_buildReply ResultStatusSuccess"
       and docState = ex_docState and plugins = ex_pluginMap]
  have plugins: "InstancePluginsInformation ex_docState = [ex_plugin_done, ex_plugin_todo]"
    by (simp add: ex_docState_def)
  have handed: "handed_to_runner
       (calls_since (ex_world ex_docState)
          (processSendCommandMessage ex_service ex_runPlugins
             (ex_buildReply ResultStatusSuccess) ex_docState (ex_world ex_docState)))
       = [ex_plugin_done, ex_plugin_todo]"
    by (rule trans [OF all [THEN conjunct1] plugins])
  note selected = all [THEN conjunct2, rule_format, OF keys]
  have executed: "HasExecuted ex_plugin_done" and pending: "\<not> HasExecuted ex_plugin_todo"
    by (simp_all add: ex_plugin_done_def ex_plugin_todo_def)
  have entries: "set ex_pluginMap =
                   {(''aws:psModule'', ex_plugin_done), (''aws:applications'', ex_plugin_todo)}"
    by (simp add: ex_pluginMap_def)
  have "{pluginName. \<exists>pluginConfig.
           (pluginName, pluginConfig) \<in> set ex_pluginMap \<and> \<not> HasExecuted pluginConfig}
        = {''aws:applications''}"
    unfolding entries using executed pending by blast
  with selected [THEN conjunct1]
  have names: "dom (loadPluginConfigurations ex_pluginMap) = {''aws:applications''}"
    by (rule trans)
  have "(''aws:applications'', ex_plugin_todo) \<in> set ex_pluginMap"
    by (simp add: ex_pluginMap_def)
  from bspec [OF selected [THEN conjunct2] this]
  have config: "loadPluginConfigurations ex_pluginMap ''aws:applications''
       = Some \<lparr>Properties = ''second''\<rparr>"
    by (simp add: ex_plugin_todo_def)
  show ?thesis
    by (rule conjI [OF keys conjI [OF handed conjI [OF names config]]])
qed

text \<open>
  Without a reboot request, and with the interim state present in the current folder
  under its own ids, \<open>processSendCommandMessage\<close> makes four calls up to the move and
  then deletes the message unless the interim state has an update plugin.
\<close>

lemma processSendCommandMessage_complete:
  assumes "runPlugins (MessageID (DocumentInformation docState))
             (InstancePluginsInformation docState) (files w) = (outputs, fs)"
    and "fs Current (InstanceID (DocumentInformation docState),
                     DocumentID (DocumentInformation docState)) = Some st"
    and "DocumentID (DocumentInformation st) = DocumentID (DocumentInformation docState)"
    and "InstanceID (DocumentInformation st) = InstanceID (DocumentInformation docState)"
    and "reply_DocumentStatus (buildReply [] outputs) \<noteq> ResultStatusSuccessAndReboot"
  shows "take 4 (calls_since w
                   (processSendCommandMessage mdsService runPlugins buildReply docState w)) =
     [Called_RunPlugins (MessageID (DocumentInformation docState))
        (InstancePluginsInformation docState),
      Called_PersistDocumentInfo
        ((DocumentInformation st)
           \<lparr>AdditionalInfo := reply_AdditionalInfo (buildReply [] outputs),
            DocumentStatus := reply_DocumentStatus (buildReply [] outputs),
            DocumentTraceOutput := reply_DocumentTraceOutput (buildReply [] outputs),
            RuntimeStatus := reply_RuntimeStatus (buildReply [] outputs)\<rparr>)
        (DocumentID (DocumentInformation docState))
        (InstanceID (DocumentInformation docState)) Current,
      Called_SendResponse (MessageID (DocumentInformation st)) [] outputs,
      Called_MoveDocumentState (DocumentID (DocumentInformation docState))
        (InstanceID (DocumentInformation docState)) Current Completed]"
   and "drop 4 (calls_since w
                  (processSendCommandMessage mdsService runPlugins buildReply docState w)) =
     (if isUpdatePlugin st then []
      else Called_DeleteMessage (MessageID (DocumentInformation st)) #
           (case DeleteMessage mdsService (MessageID (DocumentInformation st)) of
              None \<Rightarrow> [] | Some err \<Rightarrow> [Called_HandleAwsError err]))"
   and "files (processSendCommandMessage mdsService runPlugins buildReply docState w) Current
          (InstanceID (DocumentInformation docState), DocumentID (DocumentInformation docState))
        = None"
   and "files (processSendCommandMessage mdsService runPlugins buildReply docState w) Completed
          (InstanceID (DocumentInformation docState), DocumentID (DocumentInformation docState))
        = Some (st\<lparr>DocumentInformation := (DocumentInformation st)
                     \<lparr>AdditionalInfo := reply_AdditionalInfo (buildReply [] outputs),
                      DocumentStatus := reply_DocumentStatus (buildReply [] outputs),
                      DocumentTraceOutput := reply_DocumentTraceOutput (buildReply [] outputs),
                      RuntimeStatus := reply_RuntimeStatus (buildReply [] outputs)\<rparr>\<rparr>)"
  using assms
  by (simp_all add: processSendCommandMessage_def store_defs Let_def isUpdatePlugin_def
        split: option.splits)

lemma deleted_iff_in_tail:
  assumes "take 4 cs = [Called_RunPlugins messageID plugins,
                        Called_PersistDocumentInfo docInfo documentID instanceID Current,
                        Called_SendResponse replyTo [] outputs,
                        Called_MoveDocumentState documentID instanceID Current Completed]"
    and "drop 4 cs = (if skip then [] else Called_DeleteMessage replyTo # handled)"
  shows "Called_MoveDocumentState documentID instanceID Current Completed \<in> set cs
         \<and> (list_ex is_DeleteMessage cs \<longleftrightarrow> \<not> skip)
         \<and> (if skip then True else Called_DeleteMessage replyTo \<in> set cs)"
proof -
  have "cs = take 4 cs @ drop 4 cs" by simp
  then have cs: "cs = [Called_RunPlugins messageID plugins,
                       Called_PersistDocumentInfo docInfo documentID instanceID Current,
                       Called_SendResponse replyTo [] outputs,
                       Called_MoveDocumentState documentID instanceID Current Completed]
                      @ (if skip then [] else Called_DeleteMessage replyTo # handled)"
    by (simp only: assms(1,2))
  show ?thesis
  proof (cases skip)
    case True
    with cs show ?thesis by simp
  next
    case False
    with cs show ?thesis by simp
  qed
qed

text \<open>
  C6. When the reply does not ask for a reboot and the interim state of the document is
  in the current folder under the document's ids, \<open>processSendCommandMessage\<close> moves
  it from the current to the completed folder, where it then is with the final document
  information, and calls \<open>DeleteMessage\<close>, for the message of the document, if and only
  if none of the document's plugins is \<open>aws:updateSsmAgent\<close> or
  \<open>aws:updateEc2Config\<close>.
\<close>

theorem completed_document_is_moved_and_deleted:
  assumes run: "runPlugins (MessageID (DocumentInformation docState))
                  (InstancePluginsInformation docState) (files w) = (outputs, fs)"
    and present: "fs Current (InstanceID (DocumentInformation docState),
                              DocumentID (DocumentInformation docState)) = Some st"
    and documentID: "DocumentID (DocumentInformation st) = DocumentID (DocumentInformation docState)"
    and instanceID: "InstanceID (DocumentInformation st) = InstanceID (DocumentInformation docState)"
    and no_reboot: "reply_DocumentStatus (buildReply [] outputs) \<noteq> ResultStatusSuccessAndReboot"
  shows "(let w' = processSendCommandMessage mdsService runPlugins buildReply docState w;
              documentID = DocumentID (DocumentInformation docState);
              instanceID = InstanceID (DocumentInformation docState)
          in Called_MoveDocumentState documentID instanceID Current Completed
               \<in> set (calls_since w w')
             \<and> files w' Current (instanceID, documentID) = None
             \<and> files w' Completed (instanceID, documentID) =
                 Some (st\<lparr>DocumentInformation := (DocumentInformation st)
                         \<lparr>AdditionalInfo := reply_AdditionalInfo (buildReply [] outputs),
                          DocumentStatus := reply_DocumentStatus (buildReply [] outputs),
                          DocumentTraceOutput := reply_DocumentTraceOutput (buildReply [] outputs),
                          RuntimeStatus := reply_RuntimeStatus (buildReply [] outputs)\<rparr>\<rparr>)
             \<and> (list_ex is_DeleteMessage (calls_since w w') \<longleftrightarrow>
                  (\<forall>pluginState \<in> set (InstancePluginsInformation st).
                     Name pluginState \<noteq> PluginNameAwsAgentUpdate
                     \<and> Name pluginState \<noteq> PluginEC2ConfigUpdate))
             \<and> (list_ex is_DeleteMessage (calls_since w w') \<longrightarrow>
                  Called_DeleteMessage (MessageID (DocumentInformation st))
                    \<in> set (calls_since w w')))"
proof -
  note facts = processSendCommandMessage_complete
    [where runPlugins = runPlugins and buildReply = buildReply and mdsService = mdsService,
     OF run present documentID instanceID no_reboot]
  note calls = deleted_iff_in_tail [OF facts(1) facts(2)]
  have update: "isUpdatePlugin st \<longleftrightarrow>
                \<not> (\<forall>pluginState \<in> set (InstancePluginsInformation st).
                     Name pluginState \<noteq> PluginNameAwsAgentUpdate
                     \<and> Name pluginState \<noteq> PluginEC2ConfigUpdate)"
    unfolding isUpdatePlugin_def isUpdatePlugin_loop_iff by blast
  have deleted: "list_ex is_DeleteMessage
                   (calls_since w (processSendCommandMessage mdsService runPlugins buildReply docState w))
                 \<longrightarrow> Called_DeleteMessage (MessageID (DocumentInformation st))
                      \<in> set (calls_since w
                               (processSendCommandMessage mdsService runPlugins buildReply docState w))"
    using calls by (cases "isUpdatePlugin st") simp_all
  show ?thesis
    unfolding Let_def
    using calls [THEN conjunct1] calls [THEN conjunct2, THEN conjunct1] facts(3) facts(4)
      update deleted
    by blast
qed

theorem completed_document_is_moved_and_deleted_witness:
  "ex_runPlugins (MessageID (DocumentInformation ex_docState))
     (InstancePluginsInformation ex_docState) (files (ex_world ex_docState))
     = (ex_outputs, ex_files ex_docState)
   \<and> ex_files ex_docState Current (''i-1'', ''doc-1'') = Some ex_docState
   \<and> reply_DocumentStatus (ex_buildReply ResultStatusSuccess [] ex_outputs)
       \<noteq> ResultStatusSuccessAndReboot
   \<and> Called_MoveDocumentState ''doc-1'' ''i-1'' Current Completed
       \<in> set (calls_since (ex_world ex_docState)
                (processSendCommandMessage ex_service ex_runPlugins
                   (ex_buildReply ResultStatusSuccess) ex_docState (ex_world ex_docState)))
   \<and> files (processSendCommandMessage ex_service ex_runPlugins
               (ex_buildReply ResultStatusSuccess) ex_docState (ex_world ex_docState))
        Current (''i-1'', ''doc-1'') = None
   \<and> Called_DeleteMessage ''aws.ssm.cmd-1.i-1''
       \<in> set (calls_since (ex_world ex_docState)
                (processSendCommandMessage ex_service ex_runPlugins
                   (ex_buildReply ResultStatusSuccess) ex_docState (ex_world ex_docState)))
   \<and> \<not> list_ex is_DeleteMessage
         (calls_since (ex_world ex_updateDocState)
            (processSendCommandMessage ex_service ex_runPlugins
               (ex_buildReply ResultStatusSuccess) ex_updateDocState
               (ex_world ex_updateDocState)))"
proof -
  have ids: "DocumentID (DocumentInformation ex_docState) = ''doc-1''"
            "InstanceID (DocumentInformation ex_docState) = ''i-1''"
            "MessageID (DocumentInformation ex_docState) = ''aws.ssm.cmd-1.i-1''"
            "DocumentID (DocumentInformation ex_updateDocState) = ''doc-1''"
            "InstanceID (DocumentInformation ex_updateDocState) = ''i-1''"
    by (simp_all add: ex_docState_def ex_updateDocState_def ex_docInfo_def)
  have run: "ex_runPlugins (MessageID (DocumentInformation ex_docState))
               (InstancePluginsInformation ex_docState) (files (ex_world ex_docState))
             = (ex_outputs, ex_files ex_docState)"
    by (simp add: ex_runPlugins_def ex_world_def)
  have present0: "ex_files ex_docState Current
                    (InstanceID (DocumentInformation ex_docState),
                     DocumentID (DocumentInformation ex_docState)) = Some ex_docState"
    by (simp add: ex_files_def)
  note present = present0 [unfolded ids]
  have no_reboot: "reply_DocumentStatus (ex_buildReply ResultStatusSuccess [] ex_outputs)
                   \<noteq> ResultStatusSuccessAndReboot"
    by (simp add: ex_buildReply_def const_defs)
  have plain: "\<forall>pluginState \<in> set (InstancePluginsInformation ex_docState).
                 Name pluginState \<noteq> PluginNameAwsAgentUpdate
                 \<and> Name pluginState \<noteq> PluginEC2ConfigUpdate"
    by (simp add: ex_docState_def ex_plugin_done_def ex_plugin_todo_def const_defs)
  note first = completed_document_is_moved_and_deleted
    [where runPlugins = ex_runPlugins and buildReply = "ex_buildReply ResultStatusSuccess"
       and mdsService = ex_service and docState = ex_docState and w = "ex_world ex_docState"
       and outputs = ex_outputs and fs = "ex_files ex_docState" and st = ex_docState,
     OF run present0 refl refl no_reboot, unfolded Let_def ids]
  have run': "ex_runPlugins (MessageID (DocumentInformation ex_updateDocState))
               (InstancePluginsInformation ex_updateDocState) (files (ex_world ex_updateDocState))
             = (ex_outputs, ex_files ex_updateDocState)"
    by (simp add: ex_runPlugins_def ex_world_def)
  have present': "ex_files ex_updateDocState Current
                    (InstanceID (DocumentInformation ex_updateDocState),
                     DocumentID (DocumentInformation ex_updateDocState)) = Some ex_updateDocState"
    by (simp add: ex_files_def)
  have updating: "\<not> (\<forall>pluginState \<in> set (InstancePluginsInformation ex_updateDocState).
                 Name pluginState \<noteq> PluginNameAwsAgentUpdate
                 \<and> Name pluginState \<noteq> PluginEC2ConfigUpdate)"
    by (simp add: ex_updateDocState_def ex_plugin_update_def const_defs)
  note second = completed_document_is_moved_and_deleted
    [where runPlugins = ex_runPlugins and buildReply = "ex_buildReply ResultStatusSuccess"
       and mdsService = ex_service and docState = ex_updateDocState
       and w = "ex_world ex_updateDocState"
       and outputs = ex_outputs and fs = "ex_files ex_updateDocState" and st = ex_updateDocState,
     OF run' present' refl refl no_reboot, unfolded Let_def ids]
  from first second run present no_reboot plain updating show ?thesis
    unfolding ids by blast
qed

section \<open>Cancel documents\<close>

lemma processCancelCommandMessage_not_found:
  assumes "sendCommandPool w (CancelMessageID (CancelInformation docState)) = None"
  shows "fst (processCancelCommandMessage mdsService docState w) =
           docState\<lparr>CancelInformation := (CancelInformation docState)
                       \<lparr>DebugInfo := ''Command '' @ CancelCommandID (CancelInformation docState)
                                       @ '' couldn't be cancelled''\<rparr>,
                     DocumentInformation := (DocumentInformation docState)
                       \<lparr>DocumentStatus := ResultStatusFailed\<rparr>\<rparr>"
  using assms
  by (simp add: processCancelCommandMessage_def Cancel_def Let_def split_def split: option.splits)

lemma processCancelCommandMessage_found:
  assumes "sendCommandPool w (CancelMessageID (CancelInformation docState)) \<noteq> None"
  shows "fst (processCancelCommandMessage mdsService docState w) =
           docState\<lparr>CancelInformation := (CancelInformation docState)
                       \<lparr>DebugInfo := ''Command '' @ CancelCommandID (CancelInformation docState)
                                       @ '' cancelled''\<rparr>,
                     DocumentInformation := (DocumentInformation docState)
                       \<lparr>DocumentStatus := ResultStatusSuccess\<rparr>\<rparr>"
  using assms
  by (auto simp: processCancelCommandMessage_def Cancel_def Let_def split_def split: option.splits)

lemma processCancelCommandMessage_effects:
  "take 4 (calls_since w (snd (processCancelCommandMessage mdsService docState w))) =
     [Called_Cancel (CancelMessageID (CancelInformation docState)),
      Called_PersistData (DocumentID (DocumentInformation docState))
        (InstanceID (DocumentInformation docState)) Current
        (fst (processCancelCommandMessage mdsService docState w)),
      Called_MoveDocumentState (DocumentID (DocumentInformation docState))
        (InstanceID (DocumentInformation docState)) Current Completed,
      Called_DeleteMessage (MessageID (DocumentInformation docState))]
   \<and> files (snd (processCancelCommandMessage mdsService docState w)) Current
        (InstanceID (DocumentInformation docState), DocumentID (DocumentInformation docState)) = None
   \<and> files (snd (processCancelCommandMessage mdsService docState w)) Completed
        (InstanceID (DocumentInformation docState), DocumentID (DocumentInformation docState)) =
      Some (fst (processCancelCommandMessage mdsService docState w))"
proof -
  obtain found p where
    c: "Cancel (sendCommandPool w) (CancelMessageID (CancelInformation docState)) = (found, p)"
    by (cases "Cancel (sendCommandPool w) (CancelMessageID (CancelInformation docState))")
  show ?thesis
  proof (cases "DeleteMessage mdsService (MessageID (DocumentInformation docState))")
    case None
    with c show ?thesis
      by (cases found) (simp_all add: processCancelCommandMessage_def store_defs Let_def)
  next
    case (Some err)
    with c show ?thesis
      by (cases found) (simp_all add: processCancelCommandMessage_def store_defs Let_def)
  qed
qed

text \<open>
  C5. \<open>processCancelCommandMessage\<close> sets the document status to Failed with a debug
  information containing "couldn't be cancelled" when the message to cancel is not a job
  of the send-command pool, and to Success with the debug information
  "Command <CancelCommandID> cancelled" when it is. Either way its first four calls are
  the cancel, the persisting of the resulting state in the current folder, the move from
  the current to the completed folder and \<open>DeleteMessage\<close> for the message of the
  document; afterwards the resulting state is in the completed folder and not in the
  current one.
\<close>

theorem cancel_command_outcome:
  "(let target = CancelMessageID (CancelInformation docState);
        documentID = DocumentID (DocumentInformation docState);
        instanceID = InstanceID (DocumentInformation docState);
        (docState', w') = processCancelCommandMessage mdsService docState w
    in (if sendCommandPool w target = None
        then DocumentStatus (DocumentInformation docState') = ResultStatusFailed
             \<and> Contains (DebugInfo (CancelInformation docState')) ''couldn't be cancelled''
        else DocumentStatus (DocumentInformation docState') = ResultStatusSuccess
             \<and> DebugInfo (CancelInformation docState') =
                 ''Command '' @ CancelCommandID (CancelInformation docState) @ '' cancelled'')
       \<and> take 4 (calls_since w w') =
           [Called_Cancel target,
            Called_PersistData documentID instanceID Current docState',
            Called_MoveDocumentState documentID instanceID Current Completed,
            Called_DeleteMessage (MessageID (DocumentInformation docState))]
       \<and> files w' Current (instanceID, documentID) = None
       \<and> files w' Completed (instanceID, documentID) = Some docState')"
proof -
  have debug: "Contains (''Command '' @ CancelCommandID (CancelInformation docState)
                           @ '' couldn't be cancelled'') ''couldn't be cancelled''"
    using Contains_append
      [of "''Command '' @ CancelCommandID (CancelInformation docState) @ '' ''"
          "''couldn't be cancelled''" "[]"]
    by (simp del: Contains.simps)
  have outcome:
    "if sendCommandPool w (CancelMessageID (CancelInformation docState)) = None
     then DocumentStatus (DocumentInformation (fst (processCancelCommandMessage mdsService docState w)))
            = ResultStatusFailed
          \<and> Contains (DebugInfo (CancelInformation
                         (fst (processCancelCommandMessage mdsService docState w))))
              ''couldn't be cancelled''
     else DocumentStatus (DocumentInformation (fst (processCancelCommandMessage mdsService docState w)))
            = ResultStatusSuccess
          \<and> DebugInfo (CancelInformation (fst (processCancelCommandMessage mdsService docState w)))
              = ''Command '' @ CancelCommandID (CancelInformation docState) @ '' cancelled''"
  proof (cases "sendCommandPool w (CancelMessageID (CancelInformation docState)) = None")
    case True
    with debug show ?thesis
      by (simp add: processCancelCommandMessage_not_found del: Contains.simps)
  next
    case False
    then obtain j where "sendCommandPool w (CancelMessageID (CancelInformation docState)) = Some j"
      by blast
    then show ?thesis
      by (simp add: processCancelCommandMessage_found)
  qed
  show ?thesis
    unfolding Let_def split_def
    using outcome processCancelCommandMessage_effects [of w mdsService docState]
    by (rule conjI)
qed

theorem cancel_command_outcome_witness:
  "sendCommandPool (ex_world ex_cancelDocState) ''aws.ssm.cmd-1.i-1'' = None
   \<and> DocumentStatus (DocumentInformation
        (fst (processCancelCommandMessage ex_service ex_cancelDocState
                (ex_world ex_cancelDocState)))) = ResultStatusFailed
   \<and> Contains (DebugInfo (CancelInformation
        (fst (processCancelCommandMessage ex_service ex_cancelDocState
                (ex_world ex_cancelDocState))))) ''couldn't be cancelled''
   \<and> files (snd (processCancelCommandMessage ex_service ex_cancelDocState
                    (ex_world ex_cancelDocState))) Current (''i-1'', ''doc-2'') = None
   \<and> files (snd (processCancelCommandMessage ex_service ex_cancelDocState
                    (ex_world ex_cancelDocState))) Completed (''i-1'', ''doc-2'')
       = Some (fst (processCancelCommandMessage ex_service ex_cancelDocState
                      (ex_world ex_cancelDocState)))"
proof -
  have ids: "CancelMessageID (CancelInformation ex_cancelDocState) = ''aws.ssm.cmd-1.i-1''"
            "DocumentID (DocumentInformation ex_cancelDocState) = ''doc-2''"
            "InstanceID (DocumentInformation ex_cancelDocState) = ''i-1''"
    by (simp_all add: ex_cancelDocState_def ex_docInfo_def)
  have unknown: "sendCommandPool (ex_world ex_cancelDocState) ''aws.ssm.cmd-1.i-1'' = None"
    by (simp add: ex_world_def)
  note outcome = cancel_command_outcome
    [of ex_cancelDocState ex_service "ex_world ex_cancelDocState",
     unfolded Let_def split_def ids]
  from outcome unknown show ?thesis
    by (simp only: if_True simp_thms)
qed

section \<open>Incoming messages\<close>

text \<open>
  C9. For a valid message whose document state was loaded, if \<open>AcknowledgeMessage\<close>
  answers an error then \<open>processMessage\<close> makes three calls only: the persisting of the
  state in the pending folder, the acknowledgement and the handling of its error. No
  document-level response is sent; the state is in the pending folder; the current and
  completed folders and both pools are untouched.
\<close>

theorem acknowledge_failure_keeps_document_pending:
  assumes valid: "validate msg = None"
    and loaded: "(HasPrefix (Topic msg) SendCommandTopicPrefix
                    \<and> loadDocStateFromSendCommand p msg = Inr docState)
                 \<or> (\<not> HasPrefix (Topic msg) SendCommandTopicPrefix
                     \<and> HasPrefix (Topic msg) CancelCommandTopicPrefix
                     \<and> loadDocStateFromCancelCommand p msg = Inr docState)"
    and ack: "AcknowledgeMessage (service p) (MessageId msg) = Some err"
  shows "(let w' = processMessage p msg w;
              documentID = DocumentID (DocumentInformation docState);
              instanceID = InstanceID (DocumentInformation docState)
          in calls_since w w' =
               [Called_PersistData documentID instanceID Pending docState,
                Called_AcknowledgeMessage (MessageId msg),
                Called_HandleAwsError err]
             \<and> files w' Pending (instanceID, documentID) = Some docState
             \<and> files w' Current = files w Current
             \<and> files w' Completed = files w Completed
             \<and> sendCommandPool w' = sendCommandPool w
             \<and> cancelCommandPool w' = cancelCommandPool w)"
  using assms
  by (auto simp: processMessage_def processMessage_loaded_def persistData_def
        call_AcknowledgeMessage_def store_defs Let_def)

theorem acknowledge_failure_keeps_document_pending_witness:
  "validate ex_sendMessage = None
   \<and> HasPrefix (Topic ex_sendMessage) SendCommandTopicPrefix
   \<and> loadDocStateFromSendCommand (ex_processor ex_service_throttled) ex_sendMessage
       = Inr ex_docState
   \<and> AcknowledgeMessage (service (ex_processor ex_service_throttled)) (MessageId ex_sendMessage)
       = Some ''ThrottlingException''
   \<and> calls_since ex_empty_world
        (processMessage (ex_processor ex_service_throttled) ex_sendMessage ex_empty_world) =
       [Called_PersistData ''doc-1'' ''i-1'' Pending ex_docState,
        Called_AcknowledgeMessage (MessageId ex_sendMessage),
        Called_HandleAwsError ''ThrottlingException'']
   \<and> files (processMessage (ex_processor ex_service_throttled) ex_sendMessage ex_empty_world)
        Pending (''i-1'', ''doc-1'') = Some ex_docState
   \<and> files (processMessage (ex_processor ex_service_throttled) ex_sendMessage ex_empty_world)
        Current = files ex_empty_world Current
   \<and> sendCommandPool
        (processMessage (ex_processor ex_service_throttled) ex_sendMessage ex_empty_world)
       = sendCommandPool ex_empty_world"
proof -
  have ids: "DocumentID (DocumentInformation ex_docState) = ''doc-1''"
            "InstanceID (DocumentInformation ex_docState) = ''i-1''"
    by (simp_all add: ex_docState_def ex_docInfo_def)
  have valid: "validate ex_sendMessage = None"
    by (simp add: validate_def ex_sendMessage_def)
  have topic: "HasPrefix (Topic ex_sendMessage) SendCommandTopicPrefix"
    by (simp add: HasPrefix_def ex_sendMessage_def SendCommandTopicPrefix_def)
  have loaded: "loadDocStateFromSendCommand (ex_processor ex_service_throttled) ex_sendMessage
                = Inr ex_docState"
    by (simp add: ex_processor_def)
  have ack: "AcknowledgeMessage (service (ex_processor ex_service_throttled))
               (MessageId ex_sendMessage) = Some ''ThrottlingException''"
    by (simp add: ex_processor_def ex_service_throttled_def)
  note kept = acknowledge_failure_keeps_document_pending
    [where p = "ex_processor ex_service_throttled" and msg = ex_sendMessage
       and docState = ex_docState and w = ex_empty_world,
     OF valid disjI1 [OF conjI [OF topic loaded]] ack, unfolded Let_def ids]
  from kept valid topic loaded ack show ?thesis
    by blast
qed

text \<open>
  C3, as stated, fails: a valid message with the send-command topic prefix whose payload
  does not parse gets a document-level response with status Failed and the error text,
  and \<open>FailMessage\<close> is not called.
\<close>

theorem unparsable_send_command_is_not_failed:
  "validate ex_sendMessage = None
   \<and> HasPrefix (Topic ex_sendMessage) SendCommandTopicPrefix
   \<and> loadDocStateFromSendCommand ex_processor_unparsable ex_sendMessage
       = Inl ''unexpected end of JSON input''
   \<and> calls (processMessage ex_processor_unparsable ex_sendMessage ex_empty_world) =
       [Called_SendDocLevelResponse (MessageId ex_sendMessage) ResultStatusFailed
          ''unexpected end of JSON input'']
   \<and> Called_FailMessage (MessageId ex_sendMessage) InternalHandlerException
       \<notin> set (calls (processMessage ex_processor_unparsable ex_sendMessage ex_empty_world))"
  by (simp add: processMessage_def validate_def HasPrefix_def sendDocLevelResponse_def
        record_call_def ex_defs const_defs)

text \<open>
  C3, amended. For a valid message whose loading fails: when the topic has the
  send-command prefix, \<open>processMessage\<close> sends a document-level response with status
  Failed and the error text and calls nothing else; when the topic has the cancel-command
  prefix, or neither prefix, it calls \<open>FailMessage\<close> with the message id and
  \<open>InternalHandlerException\<close>, followed only by the handling of an error of that call.
  In all three cases nothing is persisted: the document store and the pools are as
  before.
\<close>

theorem load_failure_is_reported:
  assumes valid: "validate msg = None"
    and failed: "if HasPrefix (Topic msg) SendCommandTopicPrefix
                 then loadDocStateFromSendCommand p msg = Inl err
                 else if HasPrefix (Topic msg) CancelCommandTopicPrefix
                 then loadDocStateFromCancelCommand p msg = Inl err
                 else True"
  shows "(let w' = processMessage p msg w
          in calls_since w w' =
               (if HasPrefix (Topic msg) SendCommandTopicPrefix
                then [Called_SendDocLevelResponse (MessageId msg) ResultStatusFailed err]
                else Called_FailMessage (MessageId msg) InternalHandlerException #
                     (case FailMessage (service p) (MessageId msg) InternalHandlerException of
                        None \<Rightarrow> []
                      | Some e \<Rightarrow> [Called_HandleAwsError e]))
             \<and> files w' = files w
             \<and> sendCommandPool w' = sendCommandPool w
             \<and> cancelCommandPool w' = cancelCommandPool w)"
  using assms
  by (auto simp: processMessage_def processMessage_loaded_def sendDocLevelResponse_def
        call_FailMessage_def store_defs Let_def split: option.splits if_splits)

theorem load_failure_is_reported_witness:
  "validate ex_cancelMessage = None
   \<and> \<not> HasPrefix (Topic ex_cancelMessage) SendCommandTopicPrefix
   \<and> HasPrefix (Topic ex_cancelMessage) CancelCommandTopicPrefix
   \<and> loadDocStateFromCancelCommand ex_processor_unparsable ex_cancelMessage
       = Inl ''invalid character''
   \<and> calls_since ex_empty_world
        (processMessage ex_processor_unparsable ex_cancelMessage ex_empty_world)
       = [Called_FailMessage (MessageId ex_cancelMessage) InternalHandlerException]
   \<and> files (processMessage ex_processor_unparsable ex_cancelMessage ex_empty_world)
       = files ex_empty_world
   \<and> calls_since ex_empty_world
        (processMessage ex_processor_unparsable
           (ex_cancelMessage\<lparr>Topic := ''aws.ssm.updateCommand.us-east-1''\<rparr>) ex_empty_world)
       = [Called_FailMessage (MessageId ex_cancelMessage) InternalHandlerException]"
proof -
  have valid: "validate ex_cancelMessage = None"
    by (simp add: validate_def ex_cancelMessage_def)
  have not_send: "\<not> HasPrefix (Topic ex_cancelMessage) SendCommandTopicPrefix"
    by (simp add: HasPrefix_def ex_cancelMessage_def SendCommandTopicPrefix_def)
  have cancel: "HasPrefix (Topic ex_cancelMessage) CancelCommandTopicPrefix"
    by (simp add: HasPrefix_def ex_cancelMessage_def CancelCommandTopicPrefix_def)
  have failed: "loadDocStateFromCancelCommand ex_processor_unparsable ex_cancelMessage
                = Inl ''invalid character''"
    by (simp add: ex_processor_unparsable_def)
  have answer: "FailMessage (service ex_processor_unparsable) (MessageId ex_cancelMessage)
                  InternalHandlerException = None"
    by (simp add: ex_processor_unparsable_def ex_service_def)
  have "if HasPrefix (Topic ex_cancelMessage) SendCommandTopicPrefix
        then loadDocStateFromSendCommand ex_processor_unparsable ex_cancelMessage
               = Inl ''invalid character''
        else if HasPrefix (Topic ex_cancelMessage) CancelCommandTopicPrefix
        then loadDocStateFromCancelCommand ex_processor_unparsable ex_cancelMessage
               = Inl ''invalid character''
        else True"
    using not_send cancel failed by simp
  note reported = load_failure_is_reported
    [where p = ex_processor_unparsable and msg = ex_cancelMessage and w = ex_empty_world
       and err = "''invalid character''", OF valid this, unfolded Let_def]
  have first: "calls_since ex_empty_world
        (processMessage ex_processor_unparsable ex_cancelMessage ex_empty_world)
       = [Called_FailMessage (MessageId ex_cancelMessage) InternalHandlerException]"
    using reported [THEN conjunct1] not_send answer by simp
  have valid': "validate (ex_cancelMessage\<lparr>Topic := ''aws.ssm.updateCommand.us-east-1''\<rparr>) = None"
    by (simp add: validate_def ex_cancelMessage_def)
  have other: "\<not> HasPrefix (Topic (ex_cancelMessage\<lparr>Topic := ''aws.ssm.updateCommand.us-east-1''\<rparr>))
                   SendCommandTopicPrefix"
       "\<not> HasPrefix (Topic (ex_cancelMessage\<lparr>Topic := ''aws.ssm.updateCommand.us-east-1''\<rparr>))
                   CancelCommandTopicPrefix"
    by (simp_all add: HasPrefix_def SendCommandTopicPrefix_def CancelCommandTopicPrefix_def)
  have "if HasPrefix (Topic (ex_cancelMessage\<lparr>Topic := ''aws.ssm.updateCommand.us-east-1''\<rparr>))
             SendCommandTopicPrefix
        then loadDocStateFromSendCommand ex_processor_unparsable
               (ex_cancelMessage\<lparr>Topic := ''aws.ssm.updateCommand.us-east-1''\<rparr>) = Inl []
        else if HasPrefix (Topic (ex_cancelMessage\<lparr>Topic := ''aws.ssm.updateCommand.us-east-1''\<rparr>))
                  CancelCommandTopicPrefix
        then loadDocStateFromCancelCommand ex_processor_unparsable
               (ex_cancelMessage\<lparr>Topic := ''aws.ssm.updateCommand.us-east-1''\<rparr>) = Inl []
        else True"
    using other by (simp only: if_False)
  note unknown = load_failure_is_reported
    [where p = ex_processor_unparsable
       and msg = "ex_cancelMessage\<lparr>Topic := ''aws.ssm.updateCommand.us-east-1''\<rparr>"
       and w = ex_empty_world and err = "[]", OF valid' this, unfolded Let_def]
  have same_id: "MessageId (ex_cancelMessage\<lparr>Topic := ''aws.ssm.updateCommand.us-east-1''\<rparr>)
                 = MessageId ex_cancelMessage"
    by simp
  have second: "calls_since ex_empty_world
        (processMessage ex_processor_unparsable
           (ex_cancelMessage\<lparr>Topic := ''aws.ssm.updateCommand.us-east-1''\<rparr>) ex_empty_world)
       = [Called_FailMessage (MessageId ex_cancelMessage) InternalHandlerException]"
    using unknown [THEN conjunct1] other(1) answer by (simp add: same_id)
  from valid not_send cancel failed first reported [THEN conjunct2, THEN conjunct1] second
  show ?thesis by blast
qed

section \<open>Package names and versions\<close>

lemma first_char_invalid:
  assumes "name \<noteq> []" and "hd name \<in> set ''0123456789.-''"
  shows "\<not> valid_name name"
proof (cases name)
  case Nil
  with assms show ?thesis by simp
next
  case (Cons c cs)
  with assms have "c \<in> set ''0123456789.-''" by simp
  then have "\<not> name_first_char c"
    unfolding name_first_char_def by auto
  with Cons show ?thesis by (simp add: valid_name_def)
qed

lemma last_char_invalid:
  assumes "last name \<in> set ''.-''"
  shows "\<not> valid_name name"
  using assms by (cases name) (auto simp: valid_name_def)

lemma double_dot_invalid:
  assumes "Contains name ''..''"
  shows "\<not> valid_name name"
  using assms by (cases name) (auto simp: valid_name_def simp del: Contains.simps)

lemma valid_name_shape:
  assumes "name_first_char c" and "list_all name_char cs"
    and "last (c # cs) \<notin> set ''.-''" and "\<not> Contains (c # cs) ''..''"
  shows "valid_name (c # cs)"
  using assms by (simp add: valid_name_def matches_name_pattern_def del: Contains.simps)

lemmas name_defs = name_first_char_def name_char_def HasPrefix_def
  matches_version_pattern_def digits_def is_digit_def

text \<open>
  C7. For an input without a source: an empty name is rejected with an error containing
  "empty name field"; a non-empty name that starts with a digit, a dot or a dash, or ends
  in a dot or a dash, or contains two dots in a row, is rejected with an error containing
  "invalid name"; a name that starts with a letter or an underscore, consists of letters,
  digits, dots, underscores and dashes, does not end in a dot or a dash and has no two
  dots in a row is accepted, the version being empty or of the form major.minor.build.
\<close>

theorem validateInput_name:
  assumes "Source input = []"
  shows "(PackageName input = [] \<longrightarrow> rejected_with (validateInput input) ''empty name field'')
    \<and> (PackageName input \<noteq> []
         \<and> (hd (PackageName input) \<in> set ''0123456789.-''
              \<or> last (PackageName input) \<in> set ''.-''
              \<or> Contains (PackageName input) ''..'')
        \<longrightarrow> rejected_with (validateInput input) ''invalid name'')
    \<and> ((\<exists>c cs. PackageName input = c # cs \<and> name_first_char c \<and> list_all name_char cs
               \<and> last (c # cs) \<notin> set ''.-'' \<and> \<not> Contains (c # cs) ''..'')
         \<and> (Version input = [] \<or> matches_version_pattern (Version input))
        \<longrightarrow> validateInput input = (True, None))"
proof (intro conjI impI)
  assume "PackageName input = []"
  with assms show "rejected_with (validateInput input) ''empty name field''"
    using Contains_refl [of "''empty name field''"]
    by (simp add: validateInput_def rejected_with_def del: Contains.simps)
next
  assume bad: "PackageName input \<noteq> []
         \<and> (hd (PackageName input) \<in> set ''0123456789.-''
              \<or> last (PackageName input) \<in> set ''.-''
              \<or> Contains (PackageName input) ''..'')"
  then have "\<not> valid_name (PackageName input)"
    using first_char_invalid last_char_invalid double_dot_invalid by blast
  with assms bad show "rejected_with (validateInput input) ''invalid name''"
    using Contains_refl [of "''invalid name''"]
    by (simp add: validateInput_def rejected_with_def del: Contains.simps)
next
  assume good: "(\<exists>c cs. PackageName input = c # cs \<and> name_first_char c \<and> list_all name_char cs
               \<and> last (c # cs) \<notin> set ''.-'' \<and> \<not> Contains (c # cs) ''..'')
         \<and> (Version input = [] \<or> matches_version_pattern (Version input))"
  then have "valid_name (PackageName input)" and "PackageName input \<noteq> []"
    using valid_name_shape by auto
  with assms good show "validateInput input = (True, None)"
    by (auto simp: validateInput_def)
qed

theorem validateInput_name_witness:
  "rejected_with (validateInput (ex_nameInput [])) ''empty name field''
   \<and> rejected_with (validateInput (ex_nameInput ''.'')) ''invalid name''
   \<and> rejected_with (validateInput (ex_nameInput ''.abc'')) ''invalid name''
   \<and> rejected_with (validateInput (ex_nameInput ''-'')) ''invalid name''
   \<and> rejected_with (validateInput (ex_nameInput ''-abc'')) ''invalid name''
   \<and> rejected_with (validateInput (ex_nameInput ''abc.'')) ''invalid name''
   \<and> rejected_with (validateInput (ex_nameInput ''abc-'')) ''invalid name''
   \<and> rejected_with (validateInput (ex_nameInput ''0abc'')) ''invalid name''
   \<and> rejected_with (validateInput (ex_nameInput ''1234'')) ''invalid name''
   \<and> rejected_with (validateInput (ex_nameInput ''../foo'')) ''invalid name''
   \<and> rejected_with (validateInput (ex_nameInput ''abc..def'')) ''invalid name''
   \<and> validateInput (ex_nameInput ''a0'') = (True, None)
   \<and> validateInput (ex_nameInput ''_a'') = (True, None)
   \<and> validateInput (ex_nameInput ''_._._'') = (True, None)
   \<and> validateInput (ex_nameInput ''_-_'') = (True, None)
   \<and> validateInput (ex_nameInput ''A'') = (True, None)
   \<and> validateInput (ex_nameInput
        ''ABCDEFGHIJKLM-NOPQRSTUVWXYZ.abcdefghijklm-nopqrstuvwxyz.1234567890'') = (True, None)"
proof -
  have source: "\<And>name. Source (ex_nameInput name) = []"
    and name: "\<And>name. PackageName (ex_nameInput name) = name"
    and version: "\<And>name. matches_version_pattern (Version (ex_nameInput name))"
    by (simp_all add: ex_nameInput_def name_defs)
  note rule = validateInput_name [OF source, unfolded name]
  have empty: "rejected_with (validateInput (ex_nameInput [])) ''empty name field''"
    using rule [of "[]"] by simp
  have bad:
    "rejected_with (validateInput (ex_nameInput ''.'')) ''invalid name''"
    "rejected_with (validateInput (ex_nameInput ''.abc'')) ''invalid name''"
    "rejected_with (validateInput (ex_nameInput ''-'')) ''invalid name''"
    "rejected_with (validateInput (ex_nameInput ''-abc'')) ''invalid name''"
    "rejected_with (validateInput (ex_nameInput ''abc.'')) ''invalid name''"
    "rejected_with (validateInput (ex_nameInput ''abc-'')) ''invalid name''"
    "rejected_with (validateInput (ex_nameInput ''0abc'')) ''invalid name''"
    "rejected_with (validateInput (ex_nameInput ''1234'')) ''invalid name''"
    "rejected_with (validateInput (ex_nameInput ''../foo'')) ''invalid name''"
    "rejected_with (validateInput (ex_nameInput ''abc..def'')) ''invalid name''"
    using rule [of "''.''", THEN conjunct2, THEN conjunct1]
      rule [of "''.abc''", THEN conjunct2, THEN conjunct1]
      rule [of "''-''", THEN conjunct2, THEN conjunct1]
      rule [of "''-abc''", THEN conjunct2, THEN conjunct1]
      rule [of "''abc.''", THEN conjunct2, THEN conjunct1]
      rule [of "''abc-''", THEN conjunct2, THEN conjunct1]
      rule [of "''0abc''", THEN conjunct2, THEN conjunct1]
      rule [of "''1234''", THEN conjunct2, THEN conjunct1]
      rule [of "''../foo''", THEN conjunct2, THEN conjunct1]
      rule [of "''abc..def''", THEN conjunct2, THEN conjunct1]
    by (simp_all add: HasPrefix_def)
  have good:
    "validateInput (ex_nameInput ''a0'') = (True, None)"
    "validateInput (ex_nameInput ''_a'') = (True, None)"
    "validateInput (ex_nameInput ''_._._'') = (True, None)"
    "validateInput (ex_nameInput ''_-_'') = (True, None)"
    "validateInput (ex_nameInput ''A'') = (True, None)"
    "validateInput (ex_nameInput
        ''ABCDEFGHIJKLM-NOPQRSTUVWXYZ.abcdefghijklm-nopqrstuvwxyz.1234567890'') = (True, None)"
    using version
      rule [of "''a0''", THEN conjunct2, THEN conjunct2]
      rule [of "''_a''", THEN conjunct2, THEN conjunct2]
      rule [of "''_._._''", THEN conjunct2, THEN conjunct2]
      rule [of "''_-_''", THEN conjunct2, THEN conjunct2]
      rule [of "''A''", THEN conjunct2, THEN conjunct2]
      rule [of "''ABCDEFGHIJKLM-NOPQRSTUVWXYZ.abcdefghijklm-nopqrstuvwxyz.1234567890''",
            THEN conjunct2, THEN conjunct2]
    by (simp_all add: name_first_char_def name_char_def HasPrefix_def)
  from empty bad good show ?thesis by blast
qed

text \<open>
  C10. \<open>validateInput\<close> does not look at the action: changing the action of an input
  does not change its answer, and an input without a source, with a valid name and with a
  version that is empty or of the form major.minor.build is accepted whatever its action.
\<close>

theorem validateInput_ignores_action:
  "validateInput (input\<lparr>Action := action\<rparr>) = validateInput input
   \<and> (Source input = [] \<and> valid_name (PackageName input)
        \<and> (Version input = [] \<or> matches_version_pattern (Version input))
      \<longrightarrow> validateInput (input\<lparr>Action := action\<rparr>) = (True, None))"
  by (cases "PackageName input") (auto simp: validateInput_def valid_name_def)

theorem validateInput_ignores_action_witness:
  "Source createStubPluginInputInstall = []
   \<and> valid_name (PackageName createStubPluginInputInstall)
   \<and> matches_version_pattern (Version createStubPluginInputInstall)
   \<and> createStubPluginInputInstall\<lparr>Action := ''InvalidAction''\<rparr>
       = \<lparr>PackageName = ''PVDriver'', Version = ''1.0.0'', Action = ''InvalidAction'',
          Source = []\<rparr>
   \<and> validateInput (createStubPluginInputInstall\<lparr>Action := ''InvalidAction''\<rparr>) = (True, None)"
proof -
  have source: "Source createStubPluginInputInstall = []"
    by (simp add: createStubPluginInputInstall_def)
  have name: "valid_name (PackageName createStubPluginInputInstall)"
    by (simp add: createStubPluginInputInstall_def valid_name_def matches_name_pattern_def
          name_defs)
  have version: "matches_version_pattern (Version createStubPluginInputInstall)"
    by (simp add: createStubPluginInputInstall_def name_defs)
  have input: "createStubPluginInputInstall\<lparr>Action := ''InvalidAction''\<rparr>
       = \<lparr>PackageName = ''PVDriver'', Version = ''1.0.0'', Action = ''InvalidAction'',
          Source = []\<rparr>"
    by (simp add: createStubPluginInputInstall_def)
  from validateInput_ignores_action
         [where input = createStubPluginInputInstall and action = "''InvalidAction''",
          THEN conjunct2]
       source name version
  have "validateInput (createStubPluginInputInstall\<lparr>Action := ''InvalidAction''\<rparr>) = (True, None)"
    by blast
  with source name version input show ?thesis by blast
qed

section \<open>Package lock and upgrade\<close>

text \<open>
  C4. While an action is in progress for a package, \<open>lockPackage\<close> on that name fails,
  whatever the action asked for, with an error containing
  \<open>Package "<Name>" is already in the process of action "<Action>"\<close> for the action in
  progress, and leaves the lock as it is; a configure operation on that package that
  starts meanwhile (with a valid input) ends with exit code 1 and that message in its
  standard error, and does not touch the lock. A successful \<open>lockPackage\<close> puts the
  package into that state. After \<open>unlockPackage\<close>, \<open>lockPackage\<close> on that name
  succeeds for any action.
\<close>

theorem package_lock_exclusive:
  \<open>(mapPackageFileLocks s name = Some inProgress \<longrightarrow>
      (\<exists>err. lockPackage name action s = (Some err, s)
         \<and> Contains err (''Package "'' @ name @ ''" is already in the process of action "''
                             @ inProgress @ ''"''))
      \<and> (validateInput input = (True, None) \<and> PackageName input = name \<longrightarrow>
           ExitCode (fst (runConfigurePackage manager input s)) = 1
           \<and> Contains (Stderr (fst (runConfigurePackage manager input s)))
                (''Package "'' @ name @ ''" is already in the process of action "''
                   @ inProgress @ ''"'')
           \<and> snd (runConfigurePackage manager input s) = s))
   \<and> (fst (lockPackage name action s) = None \<longrightarrow>
        mapPackageFileLocks (snd (lockPackage name action s)) name = Some action)
   \<and> fst (lockPackage name action (unlockPackage name s)) = None\<close>
proof (intro conjI impI)
  assume held: "mapPackageFileLocks s name = Some inProgress"
  then show \<open>\<exists>err. lockPackage name action s = (Some err, s)
         \<and> Contains err (''Package "'' @ name @ ''" is already in the process of action "''
                             @ inProgress @ ''"'')\<close>
    using Contains_refl [of "AlreadyLocked name inProgress"]
    by (simp add: lockPackage_def AlreadyLocked_def del: Contains.simps)
next
  assume held: "mapPackageFileLocks s name = Some inProgress"
    and input: "validateInput input = (True, None) \<and> PackageName input = name"
  then have run: "runConfigurePackage manager input s =
                (MarkAsFailed (AlreadyLocked name inProgress) empty_output, s)"
    by (simp add: runConfigurePackage_def lockPackage_def)
  show "ExitCode (fst (runConfigurePackage manager input s)) = 1"
    by (simp add: run MarkAsFailed_def)
  show \<open>Contains (Stderr (fst (runConfigurePackage manager input s)))
                (''Package "'' @ name @ ''" is already in the process of action "''
                   @ inProgress @ ''"'')\<close>
    using Contains_refl [of "AlreadyLocked name inProgress"]
    by (simp add: run MarkAsFailed_def append_line_def empty_output_def AlreadyLocked_def
          del: Contains.simps)
  show "snd (runConfigurePackage manager input s) = s"
    by (simp add: run)
next
  assume "fst (lockPackage name action s) = None"
  then show "mapPackageFileLocks (snd (lockPackage name action s)) name = Some action"
    by (simp add: lockPackage_def split: option.splits)
next
  show "fst (lockPackage name action (unlockPackage name s)) = None"
    by (simp add: lockPackage_def unlockPackage_def)
qed

theorem package_lock_exclusive_witness:
  \<open>mapPackageFileLocks ex_packages_locked ''PVDriver'' = Some ''Install''
   \<and> validateInput createStubPluginInputInstall = (True, None)
   \<and> PackageName createStubPluginInputInstall = ''PVDriver''
   \<and> (\<exists>err. lockPackage ''PVDriver'' ''Uninstall'' ex_packages_locked
                = (Some err, ex_packages_locked)
         \<and> Contains err (''Package "'' @ ''PVDriver''
                            @ ''" is already in the process of action "'' @ ''Install'' @ ''"''))
   \<and> ExitCode (fst (runConfigurePackage
                      (ConfigPackageSuccessMock ''/foo'' ''1.0.0'' [] ResultStatusSuccess
                         ResultStatusSuccess ResultStatusSuccess)
                      createStubPluginInputInstall ex_packages_locked)) = 1
   \<and> Contains (Stderr (fst (runConfigurePackage
                      (ConfigPackageSuccessMock ''/foo'' ''1.0.0'' [] ResultStatusSuccess
                         ResultStatusSuccess ResultStatusSuccess)
                      createStubPluginInputInstall ex_packages_locked)))
        (''Package "'' @ ''PVDriver''
           @ ''" is already in the process of action "'' @ ''Install'' @ ''"'')
   \<and> fst (lockPackage ''PVDriver'' ''Uninstall''
            (unlockPackage ''PVDriver'' ex_packages_locked)) = None\<close>
proof -
  have held: "mapPackageFileLocks ex_packages_locked ''PVDriver'' = Some ''Install''"
    by (simp add: ex_packages_locked_def)
  have valid: "validateInput createStubPluginInputInstall = (True, None)"
    by (simp add: validateInput_def createStubPluginInputInstall_def valid_name_def
          matches_name_pattern_def name_defs)
  have name: "PackageName createStubPluginInputInstall = ''PVDriver''"
    by (simp add: createStubPluginInputInstall_def)
  note exclusive = package_lock_exclusive
    [where s = ex_packages_locked and name = "''PVDriver''" and inProgress = "''Install''"
       and action = "''Uninstall''" and input = createStubPluginInputInstall
       and manager = "ConfigPackageSuccessMock ''/foo'' ''1.0.0'' [] ResultStatusSuccess
                        ResultStatusSuccess ResultStatusSuccess"]
  from exclusive held valid name show ?thesis
    by blast
qed

text \<open>
  C8. In an install with a valid input and a free lock, when another version is installed
  and the uninstall-pre phase of that version answers SuccessAndReboot, the manager calls
  of the operation are \<open>setMark\<close> for the new version and \<open>runUninstallPackagePre\<close>
  for the old one and no others (so \<open>runInstallPackage\<close>, \<open>runUninstallPackagePost\<close>
  and \<open>clearMark\<close> are not called), the installing marker holds the new version, and the
  output has exit code 0 and status SuccessAndReboot.
\<close>

theorem upgrade_reboot_in_uninstall_pre:
  assumes "validateInput input = (True, None)"
    and "Action input = InstallAction"
    and "mapPackageFileLocks s (PackageName input) = None"
    and "getVersionToInstall manager input = Inr (version, installedVersion)"
    and "installedVersion \<noteq> []" and "installedVersion \<noteq> version"
    and "runUninstallPackagePre manager (PackageName input) installedVersion
           = Inr ResultStatusSuccessAndReboot"
  shows "(let (out, s') = runConfigurePackage manager input s
          in manager_calls s' = manager_calls s @
               [Called_setMark (PackageName input) version,
                Called_runUninstallPackagePre (PackageName input) installedVersion]
             \<and> installing s' (PackageName input) = Some version
             \<and> ExitCode out = 0
             \<and> OutputStatus out = ResultStatusSuccessAndReboot)"
  using assms
  by (simp add: runConfigurePackage_def lockPackage_def unlockPackage_def install_def
        setMark_def record_manager_call_def outcome_def MarkAsSucceeded_def Let_def)

theorem upgrade_reboot_in_uninstall_pre_witness:
  "validateInput createStubPluginInputInstall = (True, None)
   \<and> Action createStubPluginInputInstall = InstallAction
   \<and> mapPackageFileLocks ex_packages (PackageName createStubPluginInputInstall) = None
   \<and> manager_calls
        (snd (runConfigurePackage
                (ConfigPackageSuccessMock ''/foo'' ''1.0.0'' ''0.5.6'' ResultStatusSuccess
                   ResultStatusSuccessAndReboot ResultStatusSuccess)
                createStubPluginInputInstall ex_packages))
       = [Called_setMark ''PVDriver'' ''1.0.0'',
          Called_runUninstallPackagePre ''PVDriver'' ''0.5.6'']
   \<and> installing
        (snd (runConfigurePackage
                (ConfigPackageSuccessMock ''/foo'' ''1.0.0'' ''0.5.6'' ResultStatusSuccess
                   ResultStatusSuccessAndReboot ResultStatusSuccess)
                createStubPluginInputInstall ex_packages)) ''PVDriver'' = Some ''1.0.0''
   \<and> ExitCode
        (fst (runConfigurePackage
                (ConfigPackageSuccessMock ''/foo'' ''1.0.0'' ''0.5.6'' ResultStatusSuccess
                   ResultStatusSuccessAndReboot ResultStatusSuccess)
                createStubPluginInputInstall ex_packages)) = 0
   \<and> OutputStatus
        (fst (runConfigurePackage
                (ConfigPackageSuccessMock ''/foo'' ''1.0.0'' ''0.5.6'' ResultStatusSuccess
                   ResultStatusSuccessAndReboot ResultStatusSuccess)
                createStubPluginInputInstall ex_packages)) = ResultStatusSuccessAndReboot"
proof -
  have valid: "validateInput createStubPluginInputInstall = (True, None)"
    by (simp add: validateInput_def createStubPluginInputInstall_def valid_name_def
          matches_name_pattern_def name_defs)
  have action: "Action createStubPluginInputInstall = InstallAction"
    by (simp add: createStubPluginInputInstall_def InstallAction_def)
  have name: "PackageName createStubPluginInputInstall = ''PVDriver''"
    by (simp add: createStubPluginInputInstall_def)
  have free: "mapPackageFileLocks ex_packages (PackageName createStubPluginInputInstall) = None"
    by (simp add: ex_packages_def)
  have versions: "getVersionToInstall
                    (ConfigPackageSuccessMock ''/foo'' ''1.0.0'' ''0.5.6'' ResultStatusSuccess
                       ResultStatusSuccessAndReboot ResultStatusSuccess)
                    createStubPluginInputInstall = Inr (''1.0.0'', ''0.5.6'')"
    by (simp add: ConfigPackageSuccessMock_def)
  have pre: "runUninstallPackagePre
               (ConfigPackageSuccessMock ''/foo'' ''1.0.0'' ''0.5.6'' ResultStatusSuccess
                  ResultStatusSuccessAndReboot ResultStatusSuccess)
               (PackageName createStubPluginInputInstall) ''0.5.6''
             = Inr ResultStatusSuccessAndReboot"
    by (simp add: ConfigPackageSuccessMock_def)
  have installed: "''0.5.6'' \<noteq> []" and other: "''0.5.6'' \<noteq> ''1.0.0''"
    by simp_all
  have calls: "manager_calls ex_packages = []"
    by (simp add: ex_packages_def)
  note upgrade = upgrade_reboot_in_uninstall_pre
    [OF valid action free versions installed other pre,
     unfolded Let_def split_def name calls append_Nil]
  from upgrade valid action free show ?thesis
    by blast
qed
end
